theory Spec2Isabelle
  imports Main "HOL-Library.Word"
begin

unbundle bit_operations_syntax

section \<open>Machine types and constants of lrng\_base.c\<close>

text \<open>
  \<open>u32\<close> and \<open>atomic_t\<close> (a 32-bit \<open>int\<close> that wraps) are 32-bit words; \<open>sint\<close>
  reads an \<open>atomic_t\<close> as the signed value the kernel's \<open>atomic_read\<close> returns,
  \<open>unat\<close> as \<open>atomic_read_u32\<close> does.  \<open>unsigned long\<close> (jiffies) is taken as 64 bits.
\<close>

type_synonym u8 = "8 word"
type_synonym u32 = "32 word"
type_synonym u64 = "64 word"

definition LRNG_DRNG_SECURITY_STRENGTH_BYTES :: u32 where
  "LRNG_DRNG_SECURITY_STRENGTH_BYTES = 32"

definition LRNG_DRNG_SECURITY_STRENGTH_BITS :: u32 where
  "LRNG_DRNG_SECURITY_STRENGTH_BITS = LRNG_DRNG_SECURITY_STRENGTH_BYTES * 8"

definition LRNG_DRNG_MAX_REQSIZE :: u32 where
  "LRNG_DRNG_MAX_REQSIZE = push_bit 12 1"

definition LRNG_DRNG_RESEED_THRESH :: u32 where
  "LRNG_DRNG_RESEED_THRESH = push_bit 20 1"

definition LRNG_FIPS_CRNGT :: u32 where
  "LRNG_FIPS_CRNGT = 3"

definition LRNG_POOL_SIZE :: u32 where
  "LRNG_POOL_SIZE = 128"

definition LRNG_POOL_WORD_BYTES :: u32 where
  "LRNG_POOL_WORD_BYTES = 4"

definition LRNG_POOL_SIZE_BYTES :: u32 where
  "LRNG_POOL_SIZE_BYTES = LRNG_POOL_SIZE * LRNG_POOL_WORD_BYTES"

definition LRNG_POOL_SIZE_BITS :: u32 where
  "LRNG_POOL_SIZE_BITS = LRNG_POOL_SIZE_BYTES * 8"

definition LRNG_POOL_WORD_BITS :: u32 where
  "LRNG_POOL_WORD_BITS = LRNG_POOL_WORD_BYTES * 8"

definition LRNG_IRQ_ENTROPY_BITS :: u32 where
  "LRNG_IRQ_ENTROPY_BITS = LRNG_DRNG_SECURITY_STRENGTH_BYTES * 8"

definition LRNG_EMERG_ENTROPY :: u32 where
  "LRNG_EMERG_ENTROPY = LRNG_DRNG_SECURITY_STRENGTH_BITS * 2"

definition LRNG_MIN_SEED_ENTROPY_BITS :: u32 where
  "LRNG_MIN_SEED_ENTROPY_BITS = 128"

definition LRNG_INIT_ENTROPY_BITS :: u32 where
  "LRNG_INIT_ENTROPY_BITS = 32"

definition LRNG_IRQ_OVERSAMPLING_FACTOR :: u32 where
  "LRNG_IRQ_OVERSAMPLING_FACTOR = 10"

section \<open>The entropy pool\<close>

text \<open>
  \<open>struct lrng_irq_info\<close> and \<open>struct lrng_pool\<close>.  The array \<open>pool[LRNG_POOL_SIZE]\<close>
  is a function from the index to the word; the code only ever indexes it with a value
  masked by \<open>LRNG_POOL_SIZE - 1\<close>.  \<open>lrng_hash\<close> is the handle of the hash object that
  the active crypto callbacks allocated: the object is owned by the pool alone, so the
  field holds its contents, \<open>None\<close> being the NULL pointer of the static initialiser.
\<close>

record lrng_irq_info =
  num_events :: u32
  num_events_thresh :: u32
  last_time :: u32
  last_delta :: u32
  last_delta2 :: u32
  reseed_in_progress :: u32
  crngt_ctr :: u32
  irq_highres_timer :: bool
  stuck_test :: bool
  irq_entropy_bits :: u32

record lrng_pool =
  pool :: "nat \<Rightarrow> u32"
  pool_ptr :: u32
  input_rotate :: u32
  numa_drngs :: u32
  all_online_numa_node_seeded :: bool
  lrng_hash :: "u8 list option"
  irq_info :: lrng_irq_info

definition lrng_lfsr_polynomial :: "u32 list" where
  "lrng_lfsr_polynomial = [127, 28, 26, 1]"

definition lrng_twist_table :: "u32 list" where
  "lrng_twist_table =
     [0x00000000, 0x3b6e20c8, 0x76dc4190, 0x4db26158,
      0xedb88320, 0xd6d6a3e8, 0x9b64c2b0, 0xa00ae278]"

text \<open>\<open>rol32\<close> of the kernel, called with a shift below 32.\<close>

definition rol32 :: "u32 \<Rightarrow> u32 \<Rightarrow> u32" where
  "rol32 word shift = word_rotl (unat shift) word"

text \<open>
  \<open>lrng_pool_lfsr_u32\<close>: \<open>atomic_add_return\<close> on \<open>pool_ptr\<close> and \<open>input_rotate\<close>
  stores the wrapped sum and returns it; the masks select the slot and the rotation.
\<close>

definition lrng_pool_lfsr_u32 :: "u32 \<Rightarrow> lrng_pool \<Rightarrow> lrng_pool" where
  "lrng_pool_lfsr_u32 val p =
     (let new_ptr = pool_ptr p + 67;
          ptr = new_ptr AND (LRNG_POOL_SIZE - 1);
          new_rot = input_rotate p + (if ptr \<noteq> 0 then 7 else 14);
          input_rot = new_rot AND 31;
          word0 = rol32 val input_rot;
          word1 = word0 XOR pool p (unat ptr);
          word2 = word1 XOR
            pool p (unat ((ptr + lrng_lfsr_polynomial ! 0) AND (LRNG_POOL_SIZE - 1)));
          word3 = word2 XOR
            pool p (unat ((ptr + lrng_lfsr_polynomial ! 1) AND (LRNG_POOL_SIZE - 1)));
          word4 = word3 XOR
            pool p (unat ((ptr + lrng_lfsr_polynomial ! 2) AND (LRNG_POOL_SIZE - 1)));
          word5 = word4 XOR
            pool p (unat ((ptr + lrng_lfsr_polynomial ! 3) AND (LRNG_POOL_SIZE - 1)));
          word6 = drop_bit 3 word5 XOR lrng_twist_table ! unat (word5 AND 7)
      in p\<lparr>pool := (pool p)(unat ptr := word6),
            pool_ptr := new_ptr,
            input_rotate := new_rot\<rparr>)"


text \<open>
  \<open>lrng_pool_lfsr\<close> reads the buffer as native 32-bit words while at least four bytes
  are left and feeds the remaining bytes one at a time.  A buffer is a function from the
  byte offset to the byte; the byte order of the word load is the platform's.
\<close>

definition load_u32 :: "bool \<Rightarrow> (nat \<Rightarrow> u8) \<Rightarrow> nat \<Rightarrow> u32" where
  "load_u32 big_end buf k =
     (if big_end
      then push_bit 24 (ucast (buf k)) OR push_bit 16 (ucast (buf (k + 1))) OR
           push_bit 8 (ucast (buf (k + 2))) OR ucast (buf (k + 3))
      else ucast (buf k) OR push_bit 8 (ucast (buf (k + 1))) OR
           push_bit 16 (ucast (buf (k + 2))) OR push_bit 24 (ucast (buf (k + 3))))"

definition store_u32 :: "bool \<Rightarrow> u32 \<Rightarrow> u8 list" where
  "store_u32 big_end w =
     (let bs = [ucast w, ucast (drop_bit 8 w), ucast (drop_bit 16 w), ucast (drop_bit 24 w)]
      in if big_end then rev bs else bs)"

definition lrng_pool_lfsr :: "bool \<Rightarrow> (nat \<Rightarrow> u8) \<Rightarrow> u32 \<Rightarrow> lrng_pool \<Rightarrow> lrng_pool" where
  "lrng_pool_lfsr big_end buf buflen p =
     (let nwords = unat buflen div 4;
          p1 = fold (\<lambda>k. lrng_pool_lfsr_u32 (load_u32 big_end buf (4 * k))) [0..<nwords] p
      in fold (\<lambda>k. lrng_pool_lfsr_u32 (ucast (buf k))) [4 * nwords..<unat buflen] p1)"

text \<open>The pool array as the byte string that is handed to the hash.\<close>

definition pool_bytes :: "bool \<Rightarrow> lrng_pool \<Rightarrow> u8 list" where
  "pool_bytes big_end p =
     concat (map (\<lambda>i. store_u32 big_end (pool p i)) [0..<unat LRNG_POOL_SIZE])"

section \<open>Faults, pointers, callbacks and the global state\<close>

text \<open>
  What ends the run instead of returning: \<open>panic()\<close>, \<open>BUG_ON\<close>, a division by zero
  and a NULL dereference.  \<open>List_corruption\<close> ends a run at the \<open>list_add\<close> of a node
  that is already linked: the kernel list is no list from then on, and this model has no
  state for it.
\<close>

datatype fault = Panic | Bug | Divide_error | Null_deref | List_corruption

text \<open>
  DRNG objects are reached through \<open>void *\<close> handles that the code compares, and the
  atomic and the initial secondary DRNG share one object: handles are addresses into a
  memory of DRNG objects.  \<open>struct lrng_sdrng\<close> objects are the two static ones and those
  of \<open>kmalloc_node\<close>; \<open>struct lrng_crypto_cb\<close> objects are the default ChaCha20 one and
  those that modules register.
\<close>

datatype drng_ptr = Primary_chacha20 | Secondary_chacha20 | Drng_alloc nat

datatype sdrng_ptr = Sdrng_init | Sdrng_atomic | Sdrng_node nat

datatype cb_ptr = Lrng_cc20_crypto_cb | Crypto_cb nat

text \<open>
  \<open>struct lrng_crypto_cb\<close> (declared in linux/lrng.h): the callbacks are functions of the
  contents of the object they are handed.  An allocation returns the errno of its
  \<open>ERR_PTR\<close> or the contents of the new object; a call that fills a buffer returns its
  \<open>int\<close> result and the bytes written.
\<close>

record lrng_crypto_cb =
  lrng_drng_alloc :: "u32 \<Rightarrow> u32 + u8 list"
  lrng_drng_seed_helper :: "u8 list \<Rightarrow> u8 list \<Rightarrow> u32 \<times> u8 list"
  lrng_drng_generate_helper :: "u8 list \<Rightarrow> u32 \<Rightarrow> u32 \<times> u8 list \<times> u8 list"
  lrng_drng_generate_helper_full :: "u8 list \<Rightarrow> u32 \<Rightarrow> u32 \<times> u8 list \<times> u8 list"
  lrng_hash_alloc :: "u8 list \<Rightarrow> u32 + u8 list"
  lrng_hash_digestsize :: "u8 list option \<Rightarrow> u32"
  lrng_hash_buffer :: "u8 list option \<Rightarrow> u8 list \<Rightarrow> u32 \<times> u8 list"

record lrng_pdrng =
  pdrng :: drng_ptr
  crypto_cb :: cb_ptr
  pdrng_fully_seeded :: bool
  pdrng_min_seeded :: bool
  pdrng_entropy_bits :: u32

record lrng_sdrng =
  sdrng :: drng_ptr
  crypto_cb :: cb_ptr
  requests :: u32
  last_seeded :: u64
  fully_seeded :: bool
  force_reseed :: bool

text \<open>
  What the core does to its surroundings is recorded in the order it happens.
  \<open>Call_sdrng_seed\<close> is instrumentation: it records a call of \<open>lrng_sdrng_seed\<close>.
\<close>

datatype effect =
    Wake_up_read_wait | Wake_up_write_wait | Wake_up_pdrng_init_wait
  | Kill_fasync_in | Kill_fasync_out
  | Schedule_seed_work
  | Invalidate_batched_entropy
  | Ready_func nat
  | Drng_dealloc cb_ptr drng_ptr
  | Hash_dealloc cb_ptr
  | Call_sdrng_seed sdrng_ptr

text \<open>
  The globals of lrng\_base.c.  \<open>sdrng_mem\<close> holds the \<open>struct lrng_sdrng\<close> objects,
  \<open>lrng_sdrng\<close> is the per-node pointer table (\<open>None\<close> while it is NULL), \<open>drng_mem\<close>
  the DRNG objects and \<open>drng_brk\<close> the next address an allocation returns.
  \<open>lrng_ready_list\<close> lists the registered callbacks from the list head on; a
  \<open>struct random_ready_callback\<close> is known by its address, a number, and is linked at
  most once.
\<close>

record lrng_state =
  lrng_pdrng :: lrng_pdrng
  sdrng_mem :: "sdrng_ptr \<Rightarrow> lrng_sdrng"
  lrng_sdrng :: "(nat \<Rightarrow> sdrng_ptr option) option"
  drng_mem :: "drng_ptr \<Rightarrow> u8 list"
  drng_brk :: nat
  lrng_pool :: lrng_pool
  lrng_ready_list :: "nat list"
  lrng_pdrng_avail :: u32
  lrng_write_wakeup_bits :: u32
  lrng_read_wakeup_bits :: u32
  lrng_sdrng_reseed_max_time :: u32
  archrandom :: u32
  jitterrng :: u32
  lrng_jent_initialized :: u32
  reg_idx :: u32
  trace :: "effect list"

text \<open>
  What a call reads from outside lrng\_base.c: configuration, clocks, the interrupted
  context, wait queues, the other noise sources, uninitialised stack memory and the
  registered callback tables.  Each is fixed for the duration of one modelled call.
\<close>

record env =
  HZ :: u32
  fips_enabled :: bool
  big_endian :: bool
  jiffies :: u64
  random_get_entropy :: u32
  lrng_raw_entropy_store :: "u32 \<Rightarrow> bool"
  irq_regs :: "(nat \<Rightarrow> u32) option"
  pt_regs_words :: u64
  instruction_pointer :: u64
  ret_ip :: u64
  read_wait_sleeper :: bool
  in_atomic :: bool
  numa_node_id :: nat
  online_nodes :: "nat list"
  arch_get_random_seed_long :: "nat \<Rightarrow> u64 option"
  arch_get_random_long :: "nat \<Rightarrow> u64 option"
  config_jitterentropy :: bool
  jent_collector_ok :: bool
  jent_read_entropy :: "u32 \<Rightarrow> u32 \<times> u8 list"
  stack :: "nat \<Rightarrow> u8"
  lrng_cc20_init_state :: "u8 list \<Rightarrow> u8 list"
  try_module_get :: "nat \<Rightarrow> bool"
  crypto_cbs :: "cb_ptr \<Rightarrow> lrng_crypto_cb"

section \<open>Entropy accounting\<close>

definition lrng_entropy_to_data :: "lrng_irq_info \<Rightarrow> u32 \<Rightarrow> u32" where
  "lrng_entropy_to_data info entropy_bits =
     (entropy_bits * irq_entropy_bits info) div LRNG_DRNG_SECURITY_STRENGTH_BITS"

definition lrng_data_to_entropy :: "lrng_irq_info \<Rightarrow> u32 \<Rightarrow> fault + u32" where
  "lrng_data_to_entropy info irqnum =
     (if irq_entropy_bits info = 0 then Inl Divide_error
      else Inr ((irqnum * LRNG_DRNG_SECURITY_STRENGTH_BITS) div irq_entropy_bits info))"

definition lrng_avail_entropy :: "lrng_irq_info \<Rightarrow> fault + u32" where
  "lrng_avail_entropy info =
     (case lrng_data_to_entropy info (num_events info) of
        Inl e \<Rightarrow> Inl e
      | Inr bits \<Rightarrow> Inr (min LRNG_POOL_SIZE_BITS bits))"

definition lrng_set_entropy_thresh :: "u32 \<Rightarrow> lrng_irq_info \<Rightarrow> lrng_irq_info" where
  "lrng_set_entropy_thresh new info =
     info\<lparr>num_events_thresh := lrng_entropy_to_data info new\<rparr>"

section \<open>Interrupt events and the stuck test\<close>

text \<open>
  \<open>lrng_irq_stuck\<close>: the three exchanges update the stored time and deltas before the
  \<open>stuck_test\<close> flag is looked at.  With FIPS mode on, a zero first delta counts
  \<open>crngt_ctr\<close> down and panics when it reaches zero; a non-zero one sets it back.
\<close>

definition lrng_irq_stuck :: "env \<Rightarrow> lrng_irq_info \<Rightarrow> u32 \<Rightarrow> fault + (u32 \<times> lrng_irq_info)" where
  "lrng_irq_stuck e info now_time =
     (let delta = now_time - last_time info;
          delta2 = delta - last_delta info;
          delta3 = delta2 - last_delta2 info;
          info1 = info\<lparr>last_time := now_time, last_delta := delta, last_delta2 := delta2\<rparr>
      in if \<not> stuck_test info1 then Inr (0, info1)
         else if fips_enabled e \<and> delta = 0 \<and> crngt_ctr info1 - 1 = 0 then Inl Panic
         else
           (let info2 =
                  (if fips_enabled e
                   then (if delta = 0 then info1\<lparr>crngt_ctr := crngt_ctr info1 - 1\<rparr>
                         else info1\<lparr>crngt_ctr := LRNG_FIPS_CRNGT\<rparr>)
                   else info1)
            in if delta = 0 \<or> delta2 = 0 \<or> delta3 = 0 then Inr (1, info2)
               else Inr (0, info2)))"

text \<open>
  \<open>lrng_pool_mixin\<close>: wakes readers and schedules the seed work once enough events are
  counted; \<open>atomic_cmpxchg\<close> takes \<open>reseed_in_progress\<close> when it is 0.
\<close>

definition lrng_pool_mixin :: "env \<Rightarrow> u32 \<Rightarrow> lrng_state \<Rightarrow> lrng_state" where
  "lrng_pool_mixin e irq_num s =
     (let info = irq_info (lrng_pool s);
          s1 = (if pool_ptr (lrng_pool s) AND 0x3f = 0 \<and>
                   irq_num \<ge> lrng_entropy_to_data info (lrng_read_wakeup_bits s) \<and>
                   read_wait_sleeper e
                then s\<lparr>trace := trace s @ [Wake_up_read_wait, Kill_fasync_in]\<rparr>
                else s)
      in if all_online_numa_node_seeded (lrng_pool s1) then s1
         else if lrng_pdrng_avail s1 = 0 then s1
         else if num_events info < num_events_thresh info then s1
         else if reseed_in_progress info \<noteq> 0 then s1
         else s1\<lparr>lrng_pool := (lrng_pool s1)\<lparr>irq_info := info\<lparr>reseed_in_progress := 1\<rparr>\<rparr>,
                 trace := trace s1 @ [Schedule_seed_work]\<rparr>)"

text \<open>
  \<open>add_interrupt_randomness\<close>.  \<open>lrng_raw_entropy_store\<close> is not part of lrng\_base.c and is
  a parameter.  \<open>irq_lfsr_words\<close> is the first part of the function: the time stamp and,
  without a high-resolution timer, jiffies, the interrupt number and flags, one register
  of the interrupted context and the instruction pointer are fed to the LFSR.  This
  happens before the stuck test runs; only the count of the event and \<open>lrng_pool_mixin\<close>
  depend on the test.
\<close>

definition irq_lfsr_words :: "env \<Rightarrow> u32 \<Rightarrow> u32 \<Rightarrow> u32 \<Rightarrow> lrng_state \<Rightarrow> lrng_state" where
  "irq_lfsr_words e now_time irq irq_flags s =
     (let p1 = lrng_pool_lfsr_u32 now_time (lrng_pool s);
          s1 = s\<lparr>lrng_pool := p1\<rparr>
      in if \<not> irq_highres_timer (irq_info p1)
         then
           (let p2 = lrng_pool_lfsr_u32 irq_flags
                       (lrng_pool_lfsr_u32 irq
                         (lrng_pool_lfsr_u32 (ucast (jiffies e)) p1));
                (ip, idx, p3) =
                  (case irq_regs e of
                     Some regs \<Rightarrow>
                       (let reg_ptr = reg_idx s1 + 1;
                            over = ((scast reg_ptr :: u64) \<ge> pt_regs_words e);
                            reg_ptr1 = (if over then 0 else reg_ptr)
                        in (instruction_pointer e, reg_ptr1,
                            lrng_pool_lfsr_u32 (regs (unat reg_ptr1)) p2))
                   | None \<Rightarrow> (ret_ip e, reg_idx s1, p2));
                p4 = lrng_pool_lfsr_u32 (ucast ip)
                       (lrng_pool_lfsr_u32 (ucast (drop_bit 32 ip)) p3)
            in s1\<lparr>lrng_pool := p4, reg_idx := idx\<rparr>)
         else s1)"

definition add_interrupt_randomness :: "env \<Rightarrow> u32 \<Rightarrow> u32 \<Rightarrow> lrng_state \<Rightarrow> fault + lrng_state" where
  "add_interrupt_randomness e irq irq_flags s =
     (let now_time = random_get_entropy e in
      if lrng_raw_entropy_store e now_time then Inr s
      else
        (let s2 = irq_lfsr_words e now_time irq irq_flags s
         in case lrng_irq_stuck e (irq_info (lrng_pool s2)) now_time of
              Inl f \<Rightarrow> Inl f
            | Inr (stuck, info) \<Rightarrow>
                if stuck = 0
                then
                  (let info1 = info\<lparr>num_events := num_events info + 1\<rparr>;
                       s3 = s2\<lparr>lrng_pool := (lrng_pool s2)\<lparr>irq_info := info1\<rparr>\<rparr>
                   in Inr (lrng_pool_mixin e (num_events info1) s3))
                else Inr (s2\<lparr>lrng_pool := (lrng_pool s2)\<lparr>irq_info := info\<rparr>\<rparr>)))"

section \<open>Reading the pool\<close>

text \<open>
  Buffers are functions from the byte offset to the byte; a pointer into a buffer is the
  buffer and an offset.
\<close>

type_synonym buf = "nat \<Rightarrow> u8"

definition buf_write :: "buf \<Rightarrow> nat \<Rightarrow> u8 list \<Rightarrow> buf" where
  "buf_write b off bs = (\<lambda>k. if off \<le> k \<and> k < off + length bs then bs ! (k - off) else b k)"

definition buf_read :: "buf \<Rightarrow> nat \<Rightarrow> nat \<Rightarrow> u8 list" where
  "buf_read b off n = map b [off..<off + n]"

text \<open>
  A call that may trap or not come back returns \<open>None\<close> when it does not return,
  \<open>Some (Inl f)\<close> when it ends in the fault \<open>f\<close>, and \<open>Some (Inr r)\<close> when it
  returns \<open>r\<close>.
\<close>

definition run_bind :: "(fault + 'a) option \<Rightarrow> ('a \<Rightarrow> (fault + 'b) option) \<Rightarrow> (fault + 'b) option" where
  "run_bind m f = (case m of None \<Rightarrow> None | Some (Inl e) \<Rightarrow> Some (Inl e) | Some (Inr x) \<Rightarrow> f x)"

text \<open>
  The loop of \<open>lrng_hash_pool\<close>.  \<open>dig\<close> is the local \<open>digest[64]\<close>, \<open>out\<close> the caller's
  buffer.  A failing \<open>lrng_hash_buffer\<close> leaves the loop (\<open>goto out\<close>).  With a digest
  size of 0 the loop makes no progress, so the function is partial.
\<close>

partial_function (option) lrng_hash_pool_loop ::
  "bool \<Rightarrow> lrng_crypto_cb \<Rightarrow> u32 \<Rightarrow> lrng_pool \<Rightarrow> u32 \<Rightarrow> u32 \<Rightarrow> u32 \<Rightarrow> buf \<Rightarrow> buf
     \<Rightarrow> (u32 \<times> buf \<times> lrng_pool) option" where
  "lrng_hash_pool_loop big_end cb digestsize p i avail_entropy_bytes generated_bytes out dig =
     (if i < LRNG_DRNG_SECURITY_STRENGTH_BYTES \<and> avail_entropy_bytes > 0
      then
        (let tocopy = min (min avail_entropy_bytes digestsize)
                          (LRNG_DRNG_SECURITY_STRENGTH_BYTES - i);
             (ret, d) = lrng_hash_buffer cb (lrng_hash p) (pool_bytes big_end p)
         in if ret \<noteq> 0 then Some (generated_bytes, out, p)
            else
              (let dig1 = buf_write dig 0 d;
                   p1 = lrng_pool_lfsr big_end dig1 digestsize p;
                   out1 = buf_write out (unat i) (buf_read dig1 0 (unat tocopy))
               in lrng_hash_pool_loop big_end cb digestsize p1 (i + digestsize)
                    (avail_entropy_bytes - tocopy) (generated_bytes + tocopy) out1 dig1))
      else Some (generated_bytes, out, p))"

text \<open>
  \<open>lrng_hash_pool\<close>, with the callbacks of \<open>lrng_pdrng.crypto_cb\<close> as \<open>cb\<close>:
  \<open>BUG_ON(digestsize > sizeof(digest))\<close>, the cap of the byte count, the loop and
  the count of generated bits.
\<close>

definition lrng_hash_pool ::
  "env \<Rightarrow> lrng_crypto_cb \<Rightarrow> buf \<Rightarrow> u32 \<Rightarrow> lrng_pool \<Rightarrow> (fault + (u32 \<times> buf \<times> lrng_pool)) option" where
  "lrng_hash_pool e cb outbuf avail_entropy_bits p =
     (let digestsize = lrng_hash_digestsize cb (lrng_hash p);
          avail_entropy_bytes = drop_bit 3 avail_entropy_bits
      in if digestsize > 64 then Some (Inl Bug)
         else
           (let avail1 = (if avail_entropy_bytes > LRNG_DRNG_SECURITY_STRENGTH_BYTES
                          then LRNG_DRNG_SECURITY_STRENGTH_BYTES else avail_entropy_bytes)
            in case lrng_hash_pool_loop (big_endian e) cb digestsize p 0 avail1 0 outbuf (stack e) of
                 None \<Rightarrow> None
               | Some (generated_bytes, out, p1) \<Rightarrow> Some (Inr (push_bit 3 generated_bytes, out, p1))))"

text \<open>
  \<open>lrng_get_pool\<close>.  The run is sequential: the second exchange of \<open>num_events\<close> reads
  the 0 that the first one stored.  \<open>round_down(x, 8)\<close> clears the low three bits.
\<close>

definition lrng_get_pool ::
  "env \<Rightarrow> buf \<Rightarrow> u32 \<Rightarrow> bool \<Rightarrow> lrng_state \<Rightarrow> (fault + (u32 \<times> buf \<times> lrng_state)) option" where
  "lrng_get_pool e outbuf requested_entropy_bits drain s =
     (let info = irq_info (lrng_pool s);
          irq_num_events = num_events info;
          info0 = info\<lparr>num_events := 0\<rparr>;
          p0 = (lrng_pool s)\<lparr>irq_info := info0\<rparr>;
          finish = (\<lambda>avail_entropy_bits out p.
             (let inf = irq_info p;
                  irq_num_events1 = irq_num_events + num_events inf;
                  inf1 = inf\<lparr>num_events := 0\<rparr>;
                  irq_num_events_used = lrng_entropy_to_data inf1 avail_entropy_bits;
                  irq_num_event_back =
                    min (irq_num_events1 - irq_num_events_used)
                        (lrng_entropy_to_data inf1 LRNG_POOL_SIZE_BITS - irq_num_events_used);
                  inf2 = inf1\<lparr>num_events := num_events inf1 + irq_num_event_back\<rparr>
              in Some (Inr (avail_entropy_bits, out, s\<lparr>lrng_pool := p\<lparr>irq_info := inf2\<rparr>\<rparr>))))
      in case lrng_data_to_entropy info0 irq_num_events of
           Inl f \<Rightarrow> Some (Inl f)
         | Inr bits \<Rightarrow>
             (let avail0 = min bits LRNG_POOL_SIZE_BITS in
              if \<not> drain \<and> requested_entropy_bits + LRNG_EMERG_ENTROPY > avail0
              then finish 0 outbuf p0
              else
                (let avail1 = (if drain then min avail0 requested_entropy_bits
                               else requested_entropy_bits);
                     avail2 = avail1 AND NOT 7
                 in run_bind
                      (lrng_hash_pool e (crypto_cbs e (lrng_pdrng.crypto_cb (lrng_pdrng s)))
                         outbuf avail2 p0)
                      (\<lambda>(bits1, out, p1). finish bits1 out p1))))"

section \<open>The specification's mix\_word\<close>

text \<open>
  The mixing step as the specification words it, on the pool words, the insertion
  pointer modulo 128 and the rotation modulo 32: the rotated input is XORed with the
  pool words at the offsets \<open>taps\<close> from the new pointer, and the result goes through the
  twist table.  The specification names four tap offsets, those of
  \<open>lrng_lfsr_polynomial\<close>.  \<open>pool_view\<close> reads the three components off the pool
  of the code.
\<close>

definition spec_mix_word ::
  "nat list \<Rightarrow> u32 \<Rightarrow> (nat \<Rightarrow> u32) \<times> nat \<times> nat \<Rightarrow> (nat \<Rightarrow> u32) \<times> nat \<times> nat" where
  "spec_mix_word taps val st =
     (case st of (ws, ptr, rot) \<Rightarrow>
        (let ptr1 = (ptr + 67) mod 128;
             rot1 = (rot + (if ptr1 = 0 then 14 else 7)) mod 32;
             w = fold (\<lambda>t acc. acc XOR ws ((ptr1 + t) mod 128)) taps (word_rotl rot1 val);
             r = drop_bit 3 w XOR lrng_twist_table ! (unat w mod 8)
         in (ws(ptr1 := r), ptr1, rot1)))"

definition pool_view :: "lrng_pool \<Rightarrow> (nat \<Rightarrow> u32) \<times> nat \<times> nat" where
  "pool_view p = (pool p, unat (pool_ptr p AND 127), unat (input_rotate p AND 31))"

section \<open>Concrete states\<close>

text \<open>
  The interrupt information and the pool as the static initialiser of \<open>lrng_pool\<close>
  leaves them, and a pool that differs from it in one word.
\<close>

definition irq_info_boot :: lrng_irq_info where
  "irq_info_boot =
     \<lparr>num_events = 0, num_events_thresh = LRNG_INIT_ENTROPY_BITS, last_time = 0,
      last_delta = 0, last_delta2 = 0, reseed_in_progress = 0, crngt_ctr = LRNG_FIPS_CRNGT,
      irq_highres_timer = False, stuck_test = True, irq_entropy_bits = 0\<rparr>"

definition lrng_pool_boot :: lrng_pool where
  "lrng_pool_boot =
     \<lparr>pool = (\<lambda>i. 0), pool_ptr = 0, input_rotate = 0, numa_drngs = 1,
      all_online_numa_node_seeded = False, lrng_hash = None, irq_info = irq_info_boot\<rparr>"

definition lrng_pool_one_word :: lrng_pool where
  "lrng_pool_one_word = lrng_pool_boot\<lparr>pool := (\<lambda>i. if i = 67 then 8 else 0)\<rparr>"

section \<open>The primary DRNG\<close>

definition EINVAL :: u32 where "EINVAL = 22"
definition EFAULT :: u32 where "EFAULT = 14"
definition EINPROGRESS :: u32 where "EINPROGRESS = 115"

definition upd_irq_info :: "(lrng_irq_info \<Rightarrow> lrng_irq_info) \<Rightarrow> lrng_state \<Rightarrow> lrng_state" where
  "upd_irq_info f s = s\<lparr>lrng_pool := (lrng_pool s)\<lparr>irq_info := f (irq_info (lrng_pool s))\<rparr>\<rparr>"

definition upd_pdrng :: "(lrng_pdrng \<Rightarrow> lrng_pdrng) \<Rightarrow> lrng_state \<Rightarrow> lrng_state" where
  "upd_pdrng f s = s\<lparr>lrng_pdrng := f (lrng_pdrng s)\<rparr>"

definition upd_sdrng :: "sdrng_ptr \<Rightarrow> (lrng_sdrng \<Rightarrow> lrng_sdrng) \<Rightarrow> lrng_state \<Rightarrow> lrng_state" where
  "upd_sdrng p f s = s\<lparr>sdrng_mem := (sdrng_mem s)(p := f (sdrng_mem s p))\<rparr>"

definition emit :: "effect list \<Rightarrow> lrng_state \<Rightarrow> lrng_state" where
  "emit es s = s\<lparr>trace := trace s @ es\<rparr>"

text \<open>
  \<open>lrng_need_entropy\<close> and \<open>lrng_have_entropy_full\<close>; both evaluate
  \<open>lrng_avail_entropy\<close> first.
\<close>

definition lrng_need_entropy :: "lrng_state \<Rightarrow> fault + bool" where
  "lrng_need_entropy s =
     (case lrng_avail_entropy (irq_info (lrng_pool s)) of
        Inl f \<Rightarrow> Inl f
      | Inr avail \<Rightarrow>
          Inr (avail < lrng_write_wakeup_bits s \<and>
               pdrng_entropy_bits (lrng_pdrng s) < LRNG_DRNG_SECURITY_STRENGTH_BITS))"

definition lrng_have_entropy_full :: "lrng_state \<Rightarrow> fault + bool" where
  "lrng_have_entropy_full s =
     (case lrng_avail_entropy (irq_info (lrng_pool s)) of
        Inl f \<Rightarrow> Inl f
      | Inr avail \<Rightarrow>
          Inr (avail \<ge> lrng_read_wakeup_bits s \<or>
               pdrng_entropy_bits (lrng_pdrng s) \<ge> LRNG_DRNG_SECURITY_STRENGTH_BITS))"

text \<open>
  \<open>lrng_process_ready_list\<close> walks the list from its head, unlinks each entry and calls
  its function.  \<open>invalidate_batched_entropy\<close> resets per-CPU positions that lie outside
  this state; the call is recorded.
\<close>

definition lrng_process_ready_list :: "lrng_state \<Rightarrow> lrng_state" where
  "lrng_process_ready_list s =
     (emit (map Ready_func (lrng_ready_list s)) s)\<lparr>lrng_ready_list := []\<rparr>"

definition invalidate_batched_entropy :: "lrng_state \<Rightarrow> lrng_state" where
  "invalidate_batched_entropy s = emit [Invalidate_batched_entropy] s"

definition lrng_pdrng_init_ops :: "u32 \<Rightarrow> lrng_state \<Rightarrow> lrng_state" where
  "lrng_pdrng_init_ops entropy_bits s =
     (if pdrng_fully_seeded (lrng_pdrng s) then s
      else if entropy_bits \<ge> LRNG_DRNG_SECURITY_STRENGTH_BITS then
        (let s1 = invalidate_batched_entropy s;
             s2 = upd_pdrng (\<lambda>p. p\<lparr>pdrng_fully_seeded := True, pdrng_min_seeded := True\<rparr>) s1;
             s3 = upd_irq_info (lrng_set_entropy_thresh LRNG_DRNG_SECURITY_STRENGTH_BITS) s2;
             s4 = lrng_process_ready_list s3
         in emit [Wake_up_pdrng_init_wait] s4)
      else if \<not> pdrng_min_seeded (lrng_pdrng s) then
        (if entropy_bits \<ge> LRNG_MIN_SEED_ENTROPY_BITS then
           (let s1 = invalidate_batched_entropy s;
                s2 = upd_pdrng (\<lambda>p. p\<lparr>pdrng_min_seeded := True\<rparr>) s1;
                s3 = upd_irq_info (lrng_set_entropy_thresh LRNG_DRNG_SECURITY_STRENGTH_BITS) s2;
                s4 = lrng_process_ready_list s3
            in emit [Wake_up_pdrng_init_wait] s4)
         else if entropy_bits \<ge> LRNG_INIT_ENTROPY_BITS then
           upd_irq_info (lrng_set_entropy_thresh LRNG_MIN_SEED_ENTROPY_BITS) s
         else s)
      else s)"

text \<open>
  \<open>lrng_pdrng_generate\<close>, writing at offset \<open>off\<close> of \<open>out\<close>.  An \<open>int\<close> result is a
  32-bit word read through \<open>sint\<close>; the comparison \<open>ret != outbuflen\<close> is one of words.
\<close>

definition lrng_pdrng_generate ::
  "env \<Rightarrow> buf \<Rightarrow> nat \<Rightarrow> u32 \<Rightarrow> bool \<Rightarrow> lrng_state \<Rightarrow> u32 \<times> buf \<times> lrng_state" where
  "lrng_pdrng_generate e out off outbuflen fullentropy s =
     (let pd = lrng_pdrng s;
          cb = crypto_cbs e (lrng_pdrng.crypto_cb pd)
      in if fullentropy \<and> \<not> pdrng_fully_seeded pd then (0, out, s)
         else
           (let len1 = (if pdrng_min_seeded pd
                        then min outbuflen (drop_bit 3 (pdrng_entropy_bits pd))
                        else min outbuflen (drop_bit 3 LRNG_MIN_SEED_ENTROPY_BITS))
            in if len1 = 0 then (0, out, s)
               else
                 (let (ret, bytes, obj) =
                        lrng_drng_generate_helper_full cb (drng_mem s (pdrng pd)) len1;
                      s1 = s\<lparr>drng_mem := (drng_mem s)(pdrng pd := obj)\<rparr>;
                      out1 = buf_write out off (take (unat len1) bytes)
                  in if ret \<noteq> len1 then (ret, out1, s1)
                     else
                       (ret, out1,
                        upd_pdrng (\<lambda>p. p\<lparr>pdrng_entropy_bits :=
                            (if pdrng_entropy_bits p > push_bit 3 ret
                             then pdrng_entropy_bits p - push_bit 3 ret else 0)\<rparr>) s1))))"

text \<open>
  \<open>lrng_pdrng_inject\<close>.  \<open>outbuf\<close> is \<open>None\<close> for a NULL pointer.  The result is the
  \<open>int\<close> returned, the output buffer and the state.  \<open>lrng_pdrng_inject_locked\<close> is the
  part of the function between \<open>mutex_lock\<close> and \<open>mutex_unlock\<close>, together with the cap
  of the entropy value before it; the wake-up of the readers follows it.
\<close>

definition lrng_pdrng_inject_locked ::
  "env \<Rightarrow> u8 list \<Rightarrow> u32 \<Rightarrow> (buf \<times> nat) option \<Rightarrow> u32 \<Rightarrow> bool \<Rightarrow> lrng_state
     \<Rightarrow> u32 \<times> buf option \<times> lrng_state" where
  "lrng_pdrng_inject_locked e inbuf entropy_bits outbuf outbuflen fullentropy s =
     (let inbuflen = (of_nat (length inbuf) :: u32);
          entropy_bits1 = min entropy_bits (push_bit 3 inbuflen);
          pd = lrng_pdrng s;
          cb = crypto_cbs e (lrng_pdrng.crypto_cb pd);
          (ret, obj) = lrng_drng_seed_helper cb (drng_mem s (pdrng pd)) inbuf;
          s1 = s\<lparr>drng_mem := (drng_mem s)(pdrng pd := obj)\<rparr>
      in if sint ret < 0 then (ret, map_option fst outbuf, s1)
         else
           (let s3 = upd_pdrng (\<lambda>p. p\<lparr>pdrng_entropy_bits :=
                        min (pdrng_entropy_bits p + entropy_bits1)
                            LRNG_DRNG_SECURITY_STRENGTH_BITS\<rparr>) s1;
                s4 = lrng_pdrng_init_ops (pdrng_entropy_bits (lrng_pdrng s3)) s3
            in case outbuf of
                 None \<Rightarrow> (ret, None, s4)
               | Some (out, off) \<Rightarrow>
                   if outbuflen = 0 then (ret, Some out, s4)
                   else (let (r, o1, s5) = lrng_pdrng_generate e out off outbuflen fullentropy s4
                         in (r, Some o1, s5))))"

definition lrng_pdrng_inject ::
  "env \<Rightarrow> u8 list \<Rightarrow> u32 \<Rightarrow> (buf \<times> nat) option \<Rightarrow> u32 \<Rightarrow> bool \<Rightarrow> lrng_state
     \<Rightarrow> fault + (u32 \<times> buf option \<times> lrng_state)" where
  "lrng_pdrng_inject e inbuf entropy_bits outbuf outbuflen fullentropy s =
     (let (ret1, out1, s2) =
            lrng_pdrng_inject_locked e inbuf entropy_bits outbuf outbuflen fullentropy s
      in case lrng_have_entropy_full s2 of
           Inl f \<Rightarrow> Inl f
         | Inr full \<Rightarrow>
             Inr (ret1, out1,
                  if full \<and> read_wait_sleeper e
                  then emit [Wake_up_read_wait, Kill_fasync_in] s2 else s2))"

text \<open>
  \<open>lrng_get_arch\<close> fills four 8-byte blocks from the CPU; a block for which both
  instructions fail sets \<open>archrandom\<close> to 0 and ends the call.
\<close>

definition store_u64 :: "bool \<Rightarrow> u64 \<Rightarrow> u8 list" where
  "store_u64 big_end w =
     (let bs = map (\<lambda>k. ucast (drop_bit (8 * k) w)) [0..<8]
      in if big_end then rev bs else bs)"

fun lrng_get_arch_blocks :: "env \<Rightarrow> nat list \<Rightarrow> buf \<Rightarrow> nat \<Rightarrow> bool \<times> buf" where
  "lrng_get_arch_blocks e [] out off = (True, out)"
| "lrng_get_arch_blocks e (k # ks) out off =
     (case arch_get_random_seed_long e k of
        Some v \<Rightarrow> lrng_get_arch_blocks e ks
                    (buf_write out (off + 8 * k) (store_u64 (big_endian e) v)) off
      | None \<Rightarrow>
          (case arch_get_random_long e k of
             Some v \<Rightarrow> lrng_get_arch_blocks e ks
                         (buf_write out (off + 8 * k) (store_u64 (big_endian e) v)) off
           | None \<Rightarrow> (False, out)))"

definition lrng_get_arch :: "env \<Rightarrow> buf \<Rightarrow> nat \<Rightarrow> lrng_state \<Rightarrow> u32 \<times> buf \<times> lrng_state" where
  "lrng_get_arch e out off s =
     (let ent_bits = archrandom s in
      if ent_bits = 0 then (0, out, s)
      else
        (case lrng_get_arch_blocks e [0, 1, 2, 3] out off of
           (False, out1) \<Rightarrow> (0, out1, s\<lparr>archrandom := 0\<rparr>)
         | (True, out1) \<Rightarrow> (min ent_bits LRNG_DRNG_SECURITY_STRENGTH_BITS, out1, s)))"

text \<open>
  \<open>lrng_get_jent\<close>; without CONFIG\_CRYPTO\_JITTERENTROPY it returns 0.
  \<open>lrng_jent_initialized\<close> is 0, 1 or -1.
\<close>

definition lrng_get_jent :: "env \<Rightarrow> buf \<Rightarrow> nat \<Rightarrow> u32 \<Rightarrow> lrng_state \<Rightarrow> u32 \<times> buf \<times> lrng_state" where
  "lrng_get_jent e out off outbuflen s =
     (if \<not> config_jitterentropy e then (0, out, s)
      else
        (let ent_bits = jitterrng s in
         if ent_bits = 0 \<or> lrng_jent_initialized s = - 1 then (0, out, s)
         else if lrng_jent_initialized s = 0 \<and> \<not> jent_collector_ok e
         then (0, out, s\<lparr>jitterrng := 0, lrng_jent_initialized := - 1\<rparr>)
         else
           (let s1 = (if lrng_jent_initialized s = 0 then s\<lparr>lrng_jent_initialized := 1\<rparr> else s);
                (ret, bytes) = jent_read_entropy e outbuflen;
                out1 = buf_write out off (take (unat outbuflen) bytes)
            in if ret \<noteq> 0 then (0, out1, s1)
               else
                 (let ent1 = (if outbuflen \<noteq> LRNG_DRNG_SECURITY_STRENGTH_BYTES
                              then push_bit 3 (ent_bits * outbuflen) div
                                   LRNG_DRNG_SECURITY_STRENGTH_BITS
                              else ent_bits)
                  in (min ent1 (push_bit 3 outbuflen), out1, s1)))))"

text \<open>
  \<open>lrng_pdrng_seed_locked\<close>.  \<open>entropy_buf\<close> is 100 bytes of uninitialised stack:
  \<open>a\<close> at offset 0, \<open>b\<close> at 32, \<open>c\<close> at 64 and \<open>now\<close> at 96.
\<close>

definition lrng_pdrng_seed_locked ::
  "env \<Rightarrow> buf \<times> nat \<Rightarrow> u32 \<Rightarrow> bool \<Rightarrow> bool \<Rightarrow> lrng_state
     \<Rightarrow> (fault + (u32 \<times> buf \<times> lrng_state)) option" where
  "lrng_pdrng_seed_locked e outbuf outbuflen fullentropy drain s =
     (let (out, off) = outbuf;
          unlock = upd_irq_info (\<lambda>i. i\<lparr>reseed_in_progress := 0\<rparr>);
          (r0, out0, s0) =
            (if drop_bit 3 (pdrng_entropy_bits (lrng_pdrng s)) \<noteq> 0
             then lrng_pdrng_generate e out off outbuflen fullentropy s
             else (0, out, s))
      in if sint r0 > 0 \<and> r0 = outbuflen then Some (Inr (r0, out0, unlock s0))
         else
           (let retrieved0 = (if sint r0 > 0 then r0 else 0);
                off1 = (if sint r0 > 0 then off + unat r0 else off);
                outbuflen1 = (if sint r0 > 0 then outbuflen - r0 else outbuflen)
            in run_bind
                 (lrng_get_pool e (stack e) LRNG_DRNG_SECURITY_STRENGTH_BITS drain s0)
                 (\<lambda>(pool_bits, ebuf1, s1).
                    (let (arch_bits, ebuf2, s2) = lrng_get_arch e ebuf1 32 s1;
                         (jent_bits, ebuf3, s3) =
                           lrng_get_jent e ebuf2 64 LRNG_DRNG_SECURITY_STRENGTH_BYTES s2;
                         total_entropy_bits = pool_bits + arch_bits + jent_bits;
                         ebuf4 = buf_write ebuf3 96
                                   (store_u32 (big_endian e) (random_get_entropy e))
                     in case lrng_pdrng_inject e (buf_read ebuf4 0 100) total_entropy_bits
                               (Some (out0, off1)) outbuflen1 fullentropy s3 of
                          Inl f \<Rightarrow> Some (Inl f)
                        | Inr (ret, out1, s4) \<Rightarrow>
                            (let retrieved = (if sint ret > 0 then retrieved0 + ret
                                              else retrieved0)
                             in case lrng_need_entropy s4 of
                                  Inl f \<Rightarrow> Some (Inl f)
                                | Inr need \<Rightarrow>
                                    (let s5 = (if need
                                               then emit [Wake_up_write_wait, Kill_fasync_out] s4
                                               else s4)
                                     in Some (Inr (if sint ret \<ge> 0 then retrieved else ret,
                                                   (case out1 of Some o1 \<Rightarrow> o1 | None \<Rightarrow> out0),
                                                   unlock s5))))))))"

text \<open>\<open>lrng_pdrng_seed\<close> takes \<open>reseed_in_progress\<close> or returns \<open>-EINPROGRESS\<close>.\<close>

definition lrng_pdrng_seed ::
  "env \<Rightarrow> buf \<times> nat \<Rightarrow> u32 \<Rightarrow> bool \<Rightarrow> bool \<Rightarrow> lrng_state
     \<Rightarrow> (fault + (u32 \<times> buf \<times> lrng_state)) option" where
  "lrng_pdrng_seed e outbuf outbuflen fullentropy drain s =
     (if reseed_in_progress (irq_info (lrng_pool s)) \<noteq> 0
      then Some (Inr (- EINPROGRESS, fst outbuf, s))
      else lrng_pdrng_seed_locked e outbuf outbuflen fullentropy drain
             (upd_irq_info (\<lambda>i. i\<lparr>reseed_in_progress := 1\<rparr>) s))"

section \<open>The secondary DRNGs\<close>

definition INT_MAX :: u32 where "INT_MAX = 0x7FFFFFFF"

text \<open>
  \<open>time_after(a, b)\<close> of the kernel is \<open>(long)(b - a) < 0\<close>.  The reseed deadline of a
  secondary DRNG is \<open>last_seeded + lrng_sdrng_reseed_max_time * HZ\<close>, the product being
  one of \<open>int\<close>s that is then widened to \<open>unsigned long\<close>.
\<close>

definition time_after :: "u64 \<Rightarrow> u64 \<Rightarrow> bool" where
  "time_after a b = (sint (b - a) < 0)"

definition sdrng_deadline :: "env \<Rightarrow> lrng_state \<Rightarrow> lrng_sdrng \<Rightarrow> u64" where
  "sdrng_deadline e s sd = last_seeded sd + scast (lrng_sdrng_reseed_max_time s * HZ e)"

definition lrng_sdrng_is_atomic :: "lrng_state \<Rightarrow> lrng_sdrng \<Rightarrow> bool" where
  "lrng_sdrng_is_atomic s sd = (sdrng sd = sdrng (sdrng_mem s Sdrng_atomic))"

definition lrng_sdrng_reset :: "env \<Rightarrow> sdrng_ptr \<Rightarrow> lrng_state \<Rightarrow> lrng_state" where
  "lrng_sdrng_reset e p s =
     upd_sdrng p (\<lambda>d. d\<lparr>requests := LRNG_DRNG_RESEED_THRESH, last_seeded := jiffies e,
                          fully_seeded := False, force_reseed := True\<rparr>) s"

definition lrng_pdrng_reset :: "lrng_state \<Rightarrow> lrng_state" where
  "lrng_pdrng_reset s =
     upd_pdrng (\<lambda>p. p\<lparr>pdrng_entropy_bits := 0, pdrng_fully_seeded := False,
                        pdrng_min_seeded := False\<rparr>) s"

text \<open>
  \<open>lrng_drngs_init_cc20\<close>.  \<open>lrng_cc20_init_state\<close> belongs to the ChaCha20 DRNG, which
  is not part of lrng\_base.c, and is a parameter.
\<close>

definition lrng_drngs_init_cc20 :: "env \<Rightarrow> lrng_state \<Rightarrow> lrng_state" where
  "lrng_drngs_init_cc20 e s =
     (if lrng_pdrng_avail s \<noteq> 0 then s
      else
        (let s1 = (if random_get_entropy e \<noteq> 0 \<or> random_get_entropy e \<noteq> 0
                   then upd_irq_info (\<lambda>i. i\<lparr>irq_highres_timer := True,
                                               irq_entropy_bits := LRNG_IRQ_ENTROPY_BITS\<rparr>) s
                   else upd_irq_info (\<lambda>i. i\<lparr>stuck_test := False,
                          irq_entropy_bits :=
                            LRNG_IRQ_ENTROPY_BITS * LRNG_IRQ_OVERSAMPLING_FACTOR\<rparr>) s);
             s2 = lrng_sdrng_reset e Sdrng_init s1;
             s3 = s2\<lparr>drng_mem := (drng_mem s2)(Secondary_chacha20 :=
                        lrng_cc20_init_state e (drng_mem s2 Secondary_chacha20))\<rparr>;
             s4 = lrng_sdrng_reset e Sdrng_atomic s3;
             s5 = lrng_pdrng_reset s4;
             s6 = s5\<lparr>drng_mem := (drng_mem s5)(Primary_chacha20 :=
                        lrng_cc20_init_state e (drng_mem s5 Primary_chacha20))\<rparr>
         in s6\<lparr>lrng_pdrng_avail := 1\<rparr>))"

text \<open>\<open>lrng_pdrng_get\<close>: \<open>-EINPROGRESS\<close> is reported as 0 bytes.\<close>

definition lrng_pdrng_get ::
  "env \<Rightarrow> (buf \<times> nat) option \<Rightarrow> u32 \<Rightarrow> lrng_state
     \<Rightarrow> (fault + (u32 \<times> buf option \<times> lrng_state)) option" where
  "lrng_pdrng_get e outbuf outbuflen s =
     (case outbuf of
        None \<Rightarrow> Some (Inr (0, None, s))
      | Some (out, off) \<Rightarrow>
          if outbuflen = 0 then Some (Inr (0, Some out, s))
          else
            run_bind (lrng_pdrng_seed e (out, off) outbuflen True True (lrng_drngs_init_cc20 e s))
              (\<lambda>(ret, out1, s1).
                 Some (Inr (if \<not> sint ret > 0 \<and> ret = - EINPROGRESS then 0 else ret,
                            Some out1, s1))))"

definition lrng_sdrng_inject :: "env \<Rightarrow> sdrng_ptr \<Rightarrow> u8 list \<Rightarrow> bool \<Rightarrow> lrng_state \<Rightarrow> lrng_state" where
  "lrng_sdrng_inject e p inbuf internal s =
     (let sd = sdrng_mem s p;
          cb = crypto_cbs e (lrng_sdrng.crypto_cb sd);
          (ret, obj) = lrng_drng_seed_helper cb (drng_mem s (sdrng sd)) inbuf;
          s1 = s\<lparr>drng_mem := (drng_mem s)(sdrng sd := obj)\<rparr>
      in if sint ret < 0 then upd_sdrng p (\<lambda>d. d\<lparr>requests := 1\<rparr>) s1
         else if internal
         then upd_sdrng p (\<lambda>d. d\<lparr>last_seeded := jiffies e,
                                    requests := LRNG_DRNG_RESEED_THRESH\<rparr>) s1
         else s1)"

text \<open>
  \<open>lrng_sdrng_get\<close> picks the DRNG instance for the calling context;
  \<open>lrng_sdrng[node]->fully_seeded\<close> dereferences the table entry of the node.
\<close>

definition lrng_sdrng_select :: "env \<Rightarrow> lrng_state \<Rightarrow> fault + sdrng_ptr" where
  "lrng_sdrng_select e s =
     (if in_atomic e then Inr Sdrng_atomic
      else
        (case lrng_sdrng s of
           None \<Rightarrow> Inr Sdrng_init
         | Some tbl \<Rightarrow>
             (case tbl (numa_node_id e) of
                None \<Rightarrow> Inl Null_deref
              | Some p \<Rightarrow> if fully_seeded (sdrng_mem s p) then Inr p else Inr Sdrng_init)))"

text \<open>
  \<open>lrng_sdrng_seed\<close> and \<open>lrng_sdrng_get\<close> call each other, and the loop of
  \<open>lrng_sdrng_get\<close> runs as long as the callbacks leave bytes to produce.  The bodies
  of the two functions and of one loop iteration are written first, with the calls they
  make as parameters: \<open>get\<close> is the call of \<open>lrng_sdrng_get\<close> in \<open>lrng_sdrng_seed\<close>,
  \<open>seed\<close> the call \<open>lrng_sdrng_seed(sdrng, lrng_pdrng_seed)\<close> in the loop, \<open>loop\<close> the
  rest of the \<open>while (outbuflen)\<close> loop.  \<open>seed_func\<close> is the function pointer that
  \<open>lrng_sdrng_seed\<close> is handed.
\<close>

type_synonym seed_func =
  "env \<Rightarrow> buf \<times> nat \<Rightarrow> u32 \<Rightarrow> bool \<Rightarrow> bool \<Rightarrow> lrng_state
     \<Rightarrow> (fault + (u32 \<times> buf \<times> lrng_state)) option"

definition lrng_sdrng_seed_body ::
  "((buf \<times> nat) option \<Rightarrow> u32 \<Rightarrow> lrng_state \<Rightarrow> (fault + (u32 \<times> buf option \<times> lrng_state)) option)
     \<Rightarrow> env \<Rightarrow> sdrng_ptr \<Rightarrow> seed_func \<Rightarrow> lrng_state \<Rightarrow> (fault + lrng_state) option" where
  "lrng_sdrng_seed_body get e sdp seed_func s =
     (let s0 = emit [Call_sdrng_seed sdp] s in
      case seed_func e (stack e, 0) LRNG_DRNG_SECURITY_STRENGTH_BYTES False
             (\<not> fully_seeded (sdrng_mem s0 sdp)) s0 of
        None \<Rightarrow> None
      | Some (Inl f) \<Rightarrow> Some (Inl f)
      | Some (Inr (ret, seedbuf, s1)) \<Rightarrow>
          if sint ret < 0
          then Some (Inr (if ret \<noteq> - EINPROGRESS
                          then upd_sdrng sdp (\<lambda>d. d\<lparr>requests := 1\<rparr>) s1 else s1))
          else
            (let s2 = lrng_sdrng_inject e sdp (buf_read seedbuf 0 (unat ret)) True s1;
                 s3 = upd_sdrng sdp (\<lambda>d. d\<lparr>force_reseed := False\<rparr>) s2;
                 s4 = (if sint ret \<ge> sint LRNG_DRNG_SECURITY_STRENGTH_BYTES
                       then upd_sdrng sdp (\<lambda>d. d\<lparr>fully_seeded := True\<rparr>) s3 else s3);
                 at = sdrng_mem s4 Sdrng_atomic
             in if sdrng (sdrng_mem s4 sdp) \<noteq> sdrng at \<and>
                   (force_reseed at \<or> sint (requests at) \<le> 0 \<or>
                    time_after (jiffies e) (sdrng_deadline e s4 at))
                then
                  (case get (Some (seedbuf, 0)) LRNG_DRNG_SECURITY_STRENGTH_BYTES s4 of
                     None \<Rightarrow> None
                   | Some (Inl f) \<Rightarrow> Some (Inl f)
                   | Some (Inr (ret2, seedbuf2, s5)) \<Rightarrow>
                       if sint ret2 < 0 then Some (Inr s5)
                       else
                         Some (Inr (upd_sdrng Sdrng_atomic (\<lambda>d. d\<lparr>force_reseed := False\<rparr>)
                           (lrng_sdrng_inject e Sdrng_atomic
                              (buf_read (case seedbuf2 of Some b \<Rightarrow> b | None \<Rightarrow> seedbuf)
                                 0 (unat ret2))
                              True s5))))
                else Some (Inr s4)))"

text \<open>
  One iteration of the loop of \<open>lrng_sdrng_get\<close>, entered with \<open>outbuflen\<close> not 0:
  \<open>atomic_dec_and_test\<close> always runs, being the first operand of the condition.
\<close>

definition lrng_sdrng_get_iter ::
  "(lrng_state \<Rightarrow> (fault + lrng_state) option)
     \<Rightarrow> (buf \<Rightarrow> u32 \<Rightarrow> u32 \<Rightarrow> lrng_state \<Rightarrow> (fault + (u32 \<times> buf \<times> lrng_state)) option)
     \<Rightarrow> env \<Rightarrow> sdrng_ptr \<Rightarrow> buf \<Rightarrow> nat \<Rightarrow> u32 \<Rightarrow> u32 \<Rightarrow> lrng_state
     \<Rightarrow> (fault + (u32 \<times> buf \<times> lrng_state)) option" where
  "lrng_sdrng_get_iter seed loop e sdp out off processed outbuflen s =
     (let todo = min outbuflen LRNG_DRNG_MAX_REQSIZE;
          s1 = upd_sdrng sdp (\<lambda>d. d\<lparr>requests := requests d - 1\<rparr>) s;
          sd1 = sdrng_mem s1 sdp
      in case (if (requests sd1 = 0 \<or> force_reseed sd1 \<or>
                   time_after (jiffies e) (sdrng_deadline e s1 sd1)) \<and>
                  sdp \<noteq> Sdrng_atomic
               then seed s1
               else Some (Inr s1)) of
           None \<Rightarrow> None
         | Some (Inl f) \<Rightarrow> Some (Inl f)
         | Some (Inr s2) \<Rightarrow>
             (let sd2 = sdrng_mem s2 sdp;
                  cb = crypto_cbs e (lrng_sdrng.crypto_cb sd2);
                  (ret, bytes, obj) = lrng_drng_generate_helper cb (drng_mem s2 (sdrng sd2)) todo;
                  s3 = s2\<lparr>drng_mem := (drng_mem s2)(sdrng sd2 := obj)\<rparr>;
                  out1 = buf_write out (off + unat processed) (take (unat todo) bytes)
              in if sint ret \<le> 0 then Some (Inr (- EFAULT, out1, s3))
                 else loop out1 (processed + ret) (outbuflen - ret) s3))"

definition lrng_sdrng_get_body ::
  "(sdrng_ptr \<Rightarrow> buf \<Rightarrow> nat \<Rightarrow> u32 \<Rightarrow> u32 \<Rightarrow> lrng_state
      \<Rightarrow> (fault + (u32 \<times> buf \<times> lrng_state)) option)
     \<Rightarrow> env \<Rightarrow> (buf \<times> nat) option \<Rightarrow> u32 \<Rightarrow> lrng_state
     \<Rightarrow> (fault + (u32 \<times> buf option \<times> lrng_state)) option" where
  "lrng_sdrng_get_body loop e outbuf outbuflen s =
     (case outbuf of
        None \<Rightarrow> Some (Inr (0, None, s))
      | Some (out, off) \<Rightarrow>
          if outbuflen = 0 then Some (Inr (0, Some out, s))
          else
            (let outbuflen1 = min outbuflen INT_MAX;
                 s0 = lrng_drngs_init_cc20 e s
             in case lrng_sdrng_select e s0 of
                  Inl f \<Rightarrow> Some (Inl f)
                | Inr sdp \<Rightarrow>
                    (case loop sdp out off 0 outbuflen1 s0 of
                       None \<Rightarrow> None
                     | Some (Inl f) \<Rightarrow> Some (Inl f)
                     | Some (Inr (ret, out1, s1)) \<Rightarrow> Some (Inr (ret, Some out1, s1)))))"

text \<open>
  The three functions take the number of nested calls and loop iterations they may still
  make and return \<open>None\<close> when it is used up.
\<close>

fun lrng_sdrng_seed ::
    "nat \<Rightarrow> env \<Rightarrow> sdrng_ptr \<Rightarrow> seed_func \<Rightarrow> lrng_state \<Rightarrow> (fault + lrng_state) option"
  and lrng_sdrng_get_loop ::
    "nat \<Rightarrow> env \<Rightarrow> sdrng_ptr \<Rightarrow> buf \<Rightarrow> nat \<Rightarrow> u32 \<Rightarrow> u32 \<Rightarrow> lrng_state
       \<Rightarrow> (fault + (u32 \<times> buf \<times> lrng_state)) option"
  and lrng_sdrng_get ::
    "nat \<Rightarrow> env \<Rightarrow> (buf \<times> nat) option \<Rightarrow> u32 \<Rightarrow> lrng_state
       \<Rightarrow> (fault + (u32 \<times> buf option \<times> lrng_state)) option"
where
  "lrng_sdrng_seed 0 e sdp seed_func s = None"
| "lrng_sdrng_seed (Suc n) e sdp seed_func s =
     lrng_sdrng_seed_body (lrng_sdrng_get n e) e sdp seed_func s"
| "lrng_sdrng_get_loop 0 e sdp out off processed outbuflen s =
     (if outbuflen = 0 then Some (Inr (processed, out, s)) else None)"
| "lrng_sdrng_get_loop (Suc n) e sdp out off processed outbuflen s =
     (if outbuflen = 0 then Some (Inr (processed, out, s))
      else lrng_sdrng_get_iter (lrng_sdrng_seed n e sdp lrng_pdrng_seed)
             (\<lambda>out1. lrng_sdrng_get_loop n e sdp out1 off)
             e sdp out off processed outbuflen s)"
| "lrng_sdrng_get n e outbuf outbuflen s =
     lrng_sdrng_get_body (lrng_sdrng_get_loop n e) e outbuf outbuflen s"

text \<open>
  \<open>lrng_sdrng_seed_work\<close>, the work that \<open>lrng_pool_mixin\<close> schedules, seeds the first
  DRNG that is not fully seeded through \<open>lrng_pdrng_seed_locked\<close>.
\<close>

definition lrng_sdrng_seed_work_one ::
  "nat \<Rightarrow> env \<Rightarrow> sdrng_ptr \<Rightarrow> nat \<Rightarrow> lrng_state \<Rightarrow> (fault + lrng_state) option" where
  "lrng_sdrng_seed_work_one fuel e p node s =
     run_bind (lrng_sdrng_seed fuel e p lrng_pdrng_seed_locked s)
       (\<lambda>s1. Some (Inr
          (if fully_seeded (sdrng_mem s1 p)
           then (upd_sdrng p (\<lambda>d. d\<lparr>last_seeded :=
                    last_seeded d + ucast ((of_nat node :: u32) * 100 * HZ e)\<rparr>) s1)
                  \<lparr>lrng_sdrng_reseed_max_time := lrng_sdrng_reseed_max_time s1 + 100\<rparr>
           else s1)))"

definition lrng_sdrng_seed_work :: "nat \<Rightarrow> env \<Rightarrow> lrng_state \<Rightarrow> (fault + lrng_state) option" where
  "lrng_sdrng_seed_work fuel e s =
     (let unlock = upd_irq_info (\<lambda>i. i\<lparr>reseed_in_progress := 0\<rparr>) in
      case lrng_sdrng s of
        Some tbl \<Rightarrow>
          (case filter (\<lambda>node. case tbl node of
                                  Some p \<Rightarrow> \<not> fully_seeded (sdrng_mem s p)
                                | None \<Rightarrow> False) (online_nodes e) of
             node # _ \<Rightarrow>
               (case tbl node of
                  Some p \<Rightarrow>
                    run_bind (lrng_sdrng_seed_work_one fuel e p node s)
                      (\<lambda>s1. Some (Inr (unlock s1)))
                | None \<Rightarrow> Some (Inr (unlock s)))
           | [] \<Rightarrow>
               Some (Inr (unlock
                 (s\<lparr>lrng_pool := (lrng_pool s)\<lparr>all_online_numa_node_seeded := True\<rparr>\<rparr>))))
      | None \<Rightarrow>
          if \<not> fully_seeded (sdrng_mem s Sdrng_init)
          then run_bind (lrng_sdrng_seed_work_one fuel e Sdrng_init 0 s)
                 (\<lambda>s1. Some (Inr (unlock s1)))
          else Some (Inr (unlock s)))"

section \<open>Switching the crypto callbacks\<close>

text \<open>
  \<open>lrng_sdrng_switch\<close>: the new DRNG is allocated first; it is seeded with what the old
  one generates into the 32 bytes of \<open>seed\<close> on the stack; a failure of either step, or
  a primary DRNG that is not yet available, resets the secondary DRNG.
\<close>

definition lrng_sdrng_switch :: "env \<Rightarrow> sdrng_ptr \<Rightarrow> cb_ptr \<Rightarrow> nat \<Rightarrow> lrng_state \<Rightarrow> lrng_state" where
  "lrng_sdrng_switch e p cb node s =
     (case lrng_drng_alloc (crypto_cbs e cb) LRNG_DRNG_SECURITY_STRENGTH_BYTES of
        Inl err \<Rightarrow> s
      | Inr content \<Rightarrow>
          (let new_sdrng = Drng_alloc (drng_brk s);
               s1 = s\<lparr>drng_mem := (drng_mem s)(new_sdrng := content),
                       drng_brk := Suc (drng_brk s)\<rparr>;
               reset0 = (lrng_pdrng_avail s1 = 0);
               sd = sdrng_mem s1 p;
               (ret, bytes, obj) =
                 lrng_drng_generate_helper (crypto_cbs e (lrng_sdrng.crypto_cb sd))
                   (drng_mem s1 (sdrng sd)) LRNG_DRNG_SECURITY_STRENGTH_BYTES;
               seed = buf_write (stack e) 0 (take 32 bytes);
               s2 = s1\<lparr>drng_mem := (drng_mem s1)(sdrng sd := obj)\<rparr>;
               (reset_sdrng, s3) =
                 (if sint ret < 0 then (True, s2)
                  else
                    (let (ret2, nobj) =
                           lrng_drng_seed_helper (crypto_cbs e cb) (drng_mem s2 new_sdrng)
                             (buf_read seed 0 (unat ret))
                     in (reset0 \<or> sint ret2 < 0,
                         s2\<lparr>drng_mem := (drng_mem s2)(new_sdrng := nobj)\<rparr>)));
               s4 = (if reset_sdrng then lrng_sdrng_reset e p s3 else s3);
               old_sdrng = sdrng (sdrng_mem s4 p);
               old_cb = lrng_sdrng.crypto_cb (sdrng_mem s4 p);
               s5 = upd_sdrng p (\<lambda>d. d\<lparr>sdrng := new_sdrng, lrng_sdrng.crypto_cb := cb\<rparr>) s4
           in if old_sdrng \<noteq> Secondary_chacha20
              then emit [Drng_dealloc old_cb old_sdrng] s5 else s5))"

text \<open>
  \<open>lrng_drngs_switch\<close> returns the errno of a failed allocation, or 0 after it has
  replaced the primary DRNG, the pool hash and every secondary DRNG.
\<close>

definition lrng_drngs_switch :: "env \<Rightarrow> cb_ptr \<Rightarrow> lrng_state \<Rightarrow> u32 \<times> lrng_state" where
  "lrng_drngs_switch e cb s =
     (case lrng_drng_alloc (crypto_cbs e cb) LRNG_DRNG_SECURITY_STRENGTH_BYTES of
        Inl err \<Rightarrow> (err, s)
      | Inr content \<Rightarrow>
          (let new_pdrng = Drng_alloc (drng_brk s);
               s1 = s\<lparr>drng_mem := (drng_mem s)(new_pdrng := content),
                       drng_brk := Suc (drng_brk s)\<rparr>
           in case lrng_hash_alloc (crypto_cbs e cb)
                     (take (unat LRNG_DRNG_SECURITY_STRENGTH_BYTES)
                        (pool_bytes (big_endian e) (lrng_pool s1))) of
                Inl err \<Rightarrow> (err, emit [Drng_dealloc cb new_pdrng] s1)
              | Inr hash \<Rightarrow>
                  (let pd = lrng_pdrng s1;
                       old_cb = lrng_pdrng.crypto_cb pd;
                       (ret, bytes, obj) =
                         lrng_drng_generate_helper_full (crypto_cbs e old_cb)
                           (drng_mem s1 (pdrng pd)) LRNG_DRNG_SECURITY_STRENGTH_BYTES;
                       seed = buf_write (stack e) 0 (take 32 bytes);
                       s2 = s1\<lparr>drng_mem := (drng_mem s1)(pdrng pd := obj)\<rparr>;
                       s3 = (if sint ret < 0 then lrng_pdrng_reset s2
                             else
                               (let (ret2, nobj) =
                                      lrng_drng_seed_helper (crypto_cbs e cb)
                                        (drng_mem s2 new_pdrng) (buf_read seed 0 (unat ret));
                                    s2a = s2\<lparr>drng_mem := (drng_mem s2)(new_pdrng := nobj)\<rparr>
                                in if sint ret2 < 0 then lrng_pdrng_reset s2a else s2a));
                       s4 = (emit [Hash_dealloc old_cb] s3)
                              \<lparr>lrng_pool := (lrng_pool s3)\<lparr>lrng_hash := Some hash\<rparr>\<rparr>;
                       s5 = (if lrng_pdrng_avail s4 = 0 then lrng_pdrng_reset s4 else s4);
                       s6 = upd_pdrng (\<lambda>p. p\<lparr>pdrng := new_pdrng, lrng_pdrng.crypto_cb := cb\<rparr>)
                              (emit [Drng_dealloc old_cb (pdrng pd)] s5);
                       s7 = (case lrng_sdrng s6 of
                               Some tbl \<Rightarrow>
                                 fold (\<lambda>node st. case tbl node of
                                                     Some p \<Rightarrow> lrng_sdrng_switch e p cb node st
                                                   | None \<Rightarrow> st) (online_nodes e) s6
                             | None \<Rightarrow> lrng_sdrng_switch e Sdrng_init cb 0 s6)
                   in (0, s7\<lparr>lrng_pdrng_avail := 1\<rparr>))))"

text \<open>\<open>lrng_set_drng_cb\<close>; \<open>None\<close> is the NULL pointer that selects the default callbacks.\<close>

definition lrng_set_drng_cb :: "env \<Rightarrow> cb_ptr option \<Rightarrow> lrng_state \<Rightarrow> u32 \<times> lrng_state" where
  "lrng_set_drng_cb e cb s =
     (let cb1 = (case cb of None \<Rightarrow> Lrng_cc20_crypto_cb | Some c \<Rightarrow> c) in
      if cb1 \<noteq> Lrng_cc20_crypto_cb \<and>
         lrng_pdrng.crypto_cb (lrng_pdrng s) \<noteq> Lrng_cc20_crypto_cb
      then (- EINVAL, s)
      else lrng_drngs_switch e cb1 s)"

section \<open>Readiness callbacks\<close>

definition EALREADY :: u32 where "EALREADY = 114"
definition ENOENT :: u32 where "ENOENT = 2"

text \<open>
  \<open>add_random_ready_callback\<close> links the callback at the head of the list unless the
  primary DRNG is minimally seeded.  It does not look whether \<open>rdy\<close> is linked already.
  For a node that is, \<open>list_add\<close> sets \<open>rdy->list.next\<close> to the old first node, which
  is \<open>rdy\<close> itself or a node that leads back to \<open>rdy\<close>: the loop of
  \<open>lrng_process_ready_list\<close> then comes back to \<open>rdy\<close>, which \<open>list_del_init\<close> has
  linked to itself, calls its function again and again and never reaches the list head.
  The call itself still returns 0; the model ends it in \<open>List_corruption\<close>, so that no
  later step runs on a list that the code does not have.  \<open>del_random_ready_callback\<close>
  unlinks the callback if it is linked.
\<close>

definition add_random_ready_callback ::
  "env \<Rightarrow> nat \<Rightarrow> lrng_state \<Rightarrow> fault + (u32 \<times> lrng_state)" where
  "add_random_ready_callback e rdy s =
     (if pdrng_min_seeded (lrng_pdrng s) then Inr (- EALREADY, s)
      else if \<not> try_module_get e rdy then Inr (- ENOENT, s)
      else if rdy \<in> set (lrng_ready_list s) then Inl List_corruption
      else Inr (0, s\<lparr>lrng_ready_list := rdy # lrng_ready_list s\<rparr>))"

definition del_random_ready_callback :: "nat \<Rightarrow> lrng_state \<Rightarrow> lrng_state" where
  "del_random_ready_callback rdy s = s\<lparr>lrng_ready_list := removeAll rdy (lrng_ready_list s)\<rparr>"

section \<open>Concrete callbacks, environment and boot state\<close>

text \<open>
  Two callback tables for concrete runs: one whose calls all succeed, with a 32-byte
  digest, and one that differs from it in a seed helper that fails with \<open>-EINVAL\<close>.
\<close>

definition good_cb :: lrng_crypto_cb where
  "good_cb =
     \<lparr>lrng_drng_alloc = (\<lambda>sec. Inr []),
      lrng_drng_seed_helper = (\<lambda>obj inbuf. (0, take 2 inbuf)),
      lrng_drng_generate_helper = (\<lambda>obj n. (n, replicate (unat n) 0x5a, obj)),
      lrng_drng_generate_helper_full = (\<lambda>obj n. (n, replicate (unat n) 0xa5, obj)),
      lrng_hash_alloc = (\<lambda>key. Inr (take 1 key)),
      lrng_hash_digestsize = (\<lambda>h. 32),
      lrng_hash_buffer = (\<lambda>h inbuf. (0, take 32 inbuf))\<rparr>"

definition failing_cb :: lrng_crypto_cb where
  "failing_cb = good_cb\<lparr>lrng_drng_seed_helper := (\<lambda>obj inbuf. (- 22, obj))\<rparr>"

definition test_env :: env where
  "test_env =
     \<lparr>HZ = 250, fips_enabled = False, big_endian = False, jiffies = 1000,
      random_get_entropy = 5, lrng_raw_entropy_store = (\<lambda>t. False), irq_regs = None,
      pt_regs_words = 42, instruction_pointer = 0, ret_ip = 0, read_wait_sleeper = False,
      in_atomic = False, numa_node_id = 0, online_nodes = [0],
      arch_get_random_seed_long = (\<lambda>k. None), arch_get_random_long = (\<lambda>k. None),
      config_jitterentropy = False, jent_collector_ok = False,
      jent_read_entropy = (\<lambda>n. (0, [])), stack = (\<lambda>k. 0),
      lrng_cc20_init_state = (\<lambda>obj. obj), try_module_get = (\<lambda>rdy. True),
      crypto_cbs = (\<lambda>p. case p of Lrng_cc20_crypto_cb \<Rightarrow> good_cb
                          | Crypto_cb n \<Rightarrow> if n = 0 then good_cb else failing_cb)\<rparr>"

text \<open>The globals as their static initialisers leave them.\<close>

definition lrng_sdrng_static :: lrng_sdrng where
  "lrng_sdrng_static =
     \<lparr>sdrng = Secondary_chacha20, crypto_cb = Lrng_cc20_crypto_cb, requests = 0,
      last_seeded = 0, fully_seeded = False, force_reseed = False\<rparr>"

definition lrng_boot :: lrng_state where
  "lrng_boot =
     \<lparr>lrng_pdrng = \<lparr>pdrng = Primary_chacha20, crypto_cb = Lrng_cc20_crypto_cb,
                     pdrng_fully_seeded = False, pdrng_min_seeded = False,
                     pdrng_entropy_bits = 0\<rparr>,
      sdrng_mem = (\<lambda>p. lrng_sdrng_static),
      lrng_sdrng = None,
      drng_mem = (\<lambda>p. []),
      drng_brk = 0,
      lrng_pool = lrng_pool_boot,
      lrng_ready_list = [],
      lrng_pdrng_avail = 0,
      lrng_write_wakeup_bits = LRNG_EMERG_ENTROPY + 2 * LRNG_DRNG_SECURITY_STRENGTH_BITS,
      lrng_read_wakeup_bits = LRNG_POOL_WORD_BITS * 2,
      lrng_sdrng_reseed_max_time = 600,
      archrandom = drop_bit 5 LRNG_DRNG_SECURITY_STRENGTH_BITS,
      jitterrng = drop_bit 4 LRNG_DRNG_SECURITY_STRENGTH_BITS,
      lrng_jent_initialized = 0,
      reg_idx = 0,
      trace = []\<rparr>"

text \<open>The state after \<open>lrng_drngs_init_cc20\<close> has run with a high-resolution timer.\<close>

definition lrng_ready :: lrng_state where
  "lrng_ready = lrng_drngs_init_cc20 test_env lrng_boot"

text \<open>\<open>lrng_ready\<close> after \<open>n\<close> interrupt events were counted.\<close>

definition lrng_collected :: "u32 \<Rightarrow> lrng_state" where
  "lrng_collected n = upd_irq_info (\<lambda>i. i\<lparr>num_events := n\<rparr>) lrng_ready"

section \<open>Runs of interrupts\<close>

text \<open>
  A run of interrupts whose time stamps are the elements of the list, each delivered
  through \<open>add_interrupt_randomness\<close> (with irq number and flags 0); a fault ends the
  run.  \<open>events_counted\<close> and \<open>pool_word\<close> read \<open>num_events\<close> and one pool word off
  the outcome of a run.
\<close>

fun irq_events :: "env \<Rightarrow> u32 list \<Rightarrow> lrng_state \<Rightarrow> fault + lrng_state" where
  "irq_events e [] s = Inr s"
| "irq_events e (t # ts) s =
     (case add_interrupt_randomness (e\<lparr>random_get_entropy := t\<rparr>) 0 0 s of
        Inl f \<Rightarrow> Inl f
      | Inr s1 \<Rightarrow> irq_events e ts s1)"

definition events_counted :: "fault + lrng_state \<Rightarrow> fault + u32" where
  "events_counted r = map_sum id (\<lambda>s. num_events (irq_info (lrng_pool s))) r"

definition pool_word :: "nat \<Rightarrow> fault + lrng_state \<Rightarrow> fault + u32" where
  "pool_word k r = map_sum id (\<lambda>s. pool (lrng_pool s) k) r"

definition fips_env :: env where
  "fips_env = test_env\<lparr>fips_enabled := True\<rparr>"


definition lrng_switched :: lrng_state where
  "lrng_switched = snd (lrng_set_drng_cb test_env (Some (Crypto_cb 0)) lrng_ready)"

section \<open>Concrete generate requests\<close>











section \<open>Verified properties\<close>

lemmas lrng_consts =
  LRNG_DRNG_SECURITY_STRENGTH_BYTES_def LRNG_DRNG_SECURITY_STRENGTH_BITS_def
  LRNG_DRNG_MAX_REQSIZE_def LRNG_DRNG_RESEED_THRESH_def LRNG_FIPS_CRNGT_def
  LRNG_POOL_SIZE_def LRNG_POOL_WORD_BYTES_def LRNG_POOL_SIZE_BYTES_def
  LRNG_POOL_SIZE_BITS_def LRNG_POOL_WORD_BITS_def LRNG_IRQ_ENTROPY_BITS_def
  LRNG_EMERG_ENTROPY_def LRNG_MIN_SEED_ENTROPY_BITS_def LRNG_INIT_ENTROPY_BITS_def
  LRNG_IRQ_OVERSAMPLING_FACTOR_def

subsection \<open>Masks and wrap-around\<close>

lemma unat_and_mask_u32: "unat ((w::u32) AND mask n) = unat w mod 2 ^ n"
proof -
  have "w AND mask n = take_bit n w" by (simp add: take_bit_eq_mask)
  then have "unat (w AND mask n) = take_bit n (unat w)"
    by (simp only: unsigned_take_bit_eq)
  then show ?thesis by (simp only: take_bit_eq_mod)
qed

lemma unat_and_127: "unat ((w::u32) AND 127) = unat w mod 128"
  using unat_and_mask_u32 [of w 7] by (simp add: mask_eq_exp_minus_1)

lemma unat_and_31: "unat ((w::u32) AND 31) = unat w mod 32"
  using unat_and_mask_u32 [of w 5] by (simp add: mask_eq_exp_minus_1)

lemma unat_and_7: "unat ((w::u32) AND 7) = unat w mod 8"
  using unat_and_mask_u32 [of w 3] by (simp add: mask_eq_exp_minus_1)

lemma unat_add_mod_pow2:
  assumes "n \<le> 32"
  shows "unat ((w::u32) + k) mod 2 ^ n = (unat w mod 2 ^ n + unat k) mod 2 ^ n"
proof -
  have "unat (w + k) = (unat w + unat k) mod 2 ^ 32" by (simp add: unat_word_ariths)
  moreover have "(2::nat) ^ n dvd 2 ^ 32" using assms by (rule le_imp_power_dvd)
  ultimately have "unat (w + k) mod 2 ^ n = (unat w + unat k) mod 2 ^ n"
    by (simp add: mod_mod_cancel)
  then show ?thesis by (simp add: mod_add_left_eq)
qed

lemma unat_add_mod128: "unat ((w::u32) + k) mod 128 = (unat w mod 128 + unat k) mod 128"
  using unat_add_mod_pow2 [of 7 w k] by simp

lemma unat_add_mod32: "unat ((w::u32) + k) mod 32 = (unat w mod 32 + unat k) mod 32"
  using unat_add_mod_pow2 [of 5 w k] by simp

lemma and_127_zero_iff: "((w::u32) AND 127 = 0) = (unat w mod 128 = 0)"
  by (metis unat_and_127 unat_eq_0)

subsection \<open>The LFSR step\<close>

text \<open>
  C9, as the specification states it: the step XORs the rotated input with the four pool
  words at the tap offsets 127, 28, 26 and 1.  It is false for the code, which also XORs
  in the word at the pointer slot itself: on a pool whose only non-zero word is the one
  at slot 67, mixing in the value 0 stores 1 there, where the four-tap step stores 0.
\<close>

theorem lfsr_four_taps_counterexample:
  "pool_view (lrng_pool_lfsr_u32 0 lrng_pool_one_word)
     \<noteq> spec_mix_word [127, 28, 26, 1] 0 (pool_view lrng_pool_one_word)"
proof -
  have "fst (pool_view (lrng_pool_lfsr_u32 0 lrng_pool_one_word)) 67 = 1"
    by (simp add: pool_view_def lrng_pool_lfsr_u32_def Let_def rol32_def
        lrng_lfsr_polynomial_def LRNG_POOL_SIZE_def lrng_pool_one_word_def
        lrng_pool_boot_def lrng_twist_table_def)
  moreover have "fst (spec_mix_word [127, 28, 26, 1] 0 (pool_view lrng_pool_one_word)) 67 = 0"
    by (simp add: pool_view_def spec_mix_word_def Let_def lrng_pool_one_word_def
        lrng_pool_boot_def lrng_twist_table_def)
  ultimately show ?thesis by (metis zero_neq_one)
qed

text \<open>
  C9, amended: each call of \<open>lrng_pool_lfsr_u32\<close> advances the pointer by 67 modulo 128
  and the rotation by 7, or by 14 when the new pointer is 0, modulo 32, rotates the input
  left by the new rotation, XORs it with the pool word at the new pointer and with the
  four pool words at the offsets 127, 28, 26 and 1 from it, XORs the result shifted right
  by 3 with the twist-table entry of its low three bits, and stores that at the pointer.
\<close>

theorem lrng_pool_lfsr_u32_mix_word:
  "pool_view (lrng_pool_lfsr_u32 val p) = spec_mix_word [0, 127, 28, 26, 1] val (pool_view p)"
  by (simp add: pool_view_def spec_mix_word_def lrng_pool_lfsr_u32_def Let_def rol32_def
      lrng_lfsr_polynomial_def LRNG_POOL_SIZE_def unat_and_127 unat_and_31 unat_and_7
      unat_add_mod128 unat_add_mod32 and_127_zero_iff)

subsection \<open>Reading the pool\<close>

lemma irq_info_lfsr_u32 [simp]: "irq_info (lrng_pool_lfsr_u32 v p) = irq_info p"
  by (simp add: lrng_pool_lfsr_u32_def Let_def)

lemma lrng_hash_lfsr_u32 [simp]: "lrng_hash (lrng_pool_lfsr_u32 v p) = lrng_hash p"
  by (simp add: lrng_pool_lfsr_u32_def Let_def)

lemma irq_info_fold_lfsr: "irq_info (fold (\<lambda>k. lrng_pool_lfsr_u32 (f k)) ks p) = irq_info p"
  by (induction ks arbitrary: p) simp_all

lemma lrng_hash_fold_lfsr: "lrng_hash (fold (\<lambda>k. lrng_pool_lfsr_u32 (f k)) ks p) = lrng_hash p"
  by (induction ks arbitrary: p) simp_all

lemma irq_info_lfsr [simp]: "irq_info (lrng_pool_lfsr be b n p) = irq_info p"
  by (simp add: lrng_pool_lfsr_def Let_def irq_info_fold_lfsr)

lemma lrng_hash_lfsr [simp]: "lrng_hash (lrng_pool_lfsr be b n p) = lrng_hash p"
  by (simp add: lrng_pool_lfsr_def Let_def lrng_hash_fold_lfsr)

lemma hash_pool_loop_returns:
  assumes d: "digestsize \<noteq> 0" "digestsize \<le> 64"
  shows "unat i \<le> 96 \<Longrightarrow> unat generated + unat avail \<le> 32 \<Longrightarrow>
         \<exists>g out1 p1. lrng_hash_pool_loop be cb digestsize p i avail generated out dig = Some (g, out1, p1)
            \<and> unat g \<le> unat generated + unat avail \<and> irq_info p1 = irq_info p
            \<and> lrng_hash p1 = lrng_hash p"
proof (induction "32 - unat i" arbitrary: i p avail generated out dig rule: less_induct)
  case less
  show ?case
  proof (cases "i < LRNG_DRNG_SECURITY_STRENGTH_BYTES \<and> avail > 0")
    case False
    then have "lrng_hash_pool_loop be cb digestsize p i avail generated out dig
                 = Some (generated, out, p)"
      by (subst lrng_hash_pool_loop.simps) (simp only: if_False)
    then show ?thesis by simp
  next
    case True
    then have i32: "unat i < 32"
      by (simp add: LRNG_DRNG_SECURITY_STRENGTH_BYTES_def word_less_nat_alt)
    obtain ret dd where hb: "lrng_hash_buffer cb (lrng_hash p) (pool_bytes be p) = (ret, dd)"
      by (cases "lrng_hash_buffer cb (lrng_hash p) (pool_bytes be p)") auto
    show ?thesis
    proof (cases "ret = 0")
      case False
      with True hb show ?thesis
        by (subst lrng_hash_pool_loop.simps) (simp add: Let_def)
    next
      case ret0: True
      define tocopy where "tocopy = min (min avail digestsize) (LRNG_DRNG_SECURITY_STRENGTH_BYTES - i)"
      have tc: "unat tocopy \<le> unat avail"
        unfolding tocopy_def by (simp add: word_le_nat_alt [symmetric] min.coboundedI1)
      have dn: "0 < unat digestsize" "unat digestsize \<le> 64"
        using d by (simp_all add: unat_gt_0 word_le_nat_alt)
      have ui: "unat (i + digestsize) = unat i + unat digestsize"
        using i32 dn by (simp add: unat_word_ariths)
      have ug: "unat (generated + tocopy) = unat generated + unat tocopy"
        using tc less.prems by (simp add: unat_word_ariths)
      have ua: "unat (avail - tocopy) = unat avail - unat tocopy"
        using tc by (simp add: unat_sub word_le_nat_alt)
      let ?dig1 = "buf_write dig 0 dd"
      let ?p1 = "lrng_pool_lfsr be ?dig1 digestsize p"
      let ?out1 = "buf_write out (unat i) (buf_read ?dig1 0 (unat tocopy))"
      have "32 - unat (i + digestsize) < 32 - unat i" using ui i32 dn by simp
      moreover have "unat (i + digestsize) \<le> 96" using ui i32 dn by simp
      moreover have "unat (generated + tocopy) + unat (avail - tocopy) \<le> 32"
        using ug ua tc less.prems by simp
      ultimately obtain g out1 p1 where
        rec: "lrng_hash_pool_loop be cb digestsize ?p1 (i + digestsize) (avail - tocopy)
                (generated + tocopy) ?out1 ?dig1 = Some (g, out1, p1)"
        and g: "unat g \<le> unat (generated + tocopy) + unat (avail - tocopy)"
        and inv: "irq_info p1 = irq_info ?p1" "lrng_hash p1 = lrng_hash ?p1"
        using less.hyps [of "i + digestsize" "generated + tocopy" "avail - tocopy" ?p1 ?out1 ?dig1]
        by blast
      have "lrng_hash_pool_loop be cb digestsize p i avail generated out dig = Some (g, out1, p1)"
        using True hb ret0 rec
        by (subst lrng_hash_pool_loop.simps) (simp add: Let_def tocopy_def)
      moreover have "unat g \<le> unat generated + unat avail" using g ug ua tc by simp
      ultimately show ?thesis using inv by simp
    qed
  qed
qed


lemma hash_pool_returns:
  assumes d: "lrng_hash_digestsize cb (lrng_hash p) \<noteq> 0" "lrng_hash_digestsize cb (lrng_hash p) \<le> 64"
  shows "\<exists>bits1 out p1. lrng_hash_pool e cb outbuf bits p = Some (Inr (bits1, out, p1))
           \<and> unat bits1 \<le> unat bits \<and> 8 dvd unat bits1 \<and> unat bits1 \<le> 256
           \<and> irq_info p1 = irq_info p"
proof -
  define avail1 where "avail1 = (if drop_bit 3 bits > LRNG_DRNG_SECURITY_STRENGTH_BYTES
     then LRNG_DRNG_SECURITY_STRENGTH_BYTES else drop_bit 3 bits)"
  have db: "unat (drop_bit 3 bits) = unat bits div 8"
    by (simp add: drop_bit_eq_div unat_div)
  have a1: "unat avail1 \<le> 32" "unat avail1 \<le> unat bits div 8"
    using db by (auto simp: avail1_def LRNG_DRNG_SECURITY_STRENGTH_BYTES_def word_less_nat_alt)
  obtain g out1 p1 where
    loop: "lrng_hash_pool_loop (big_endian e) cb (lrng_hash_digestsize cb (lrng_hash p)) p 0 avail1 0
             outbuf (stack e) = Some (g, out1, p1)"
    and g: "unat g \<le> unat (0::u32) + unat avail1" and inv: "irq_info p1 = irq_info p"
    using hash_pool_loop_returns [OF d, of 0 0 avail1 "big_endian e" cb p outbuf "stack e"] a1
    by auto
  have g32: "unat g \<le> 32" using g a1 by simp
  have pb: "unat (push_bit 3 g) = 8 * unat g"
    using g32 by (simp add: push_bit_eq_mult unat_word_ariths)
  have "lrng_hash_pool e cb outbuf bits p = Some (Inr (push_bit 3 g, out1, p1))"
    using d loop by (simp add: lrng_hash_pool_def Let_def avail1_def)
  moreover have "unat (push_bit 3 g) \<le> unat bits" using pb g a1 by simp
  moreover have "8 dvd unat (push_bit 3 g)" using pb by simp
  moreover have "unat (push_bit 3 g) \<le> 256" using pb g32 by simp
  ultimately show ?thesis using inv by blast
qed


lemma e2d_num_events [simp]:
  "lrng_entropy_to_data (info\<lparr>num_events := x\<rparr>) b = lrng_entropy_to_data info b"
  by (simp add: lrng_entropy_to_data_def)

lemma get_pool_returns:
  fixes s e req drain outbuf
  defines "info \<equiv> irq_info (lrng_pool s)"
  defines "cb \<equiv> crypto_cbs e (lrng_pdrng.crypto_cb (lrng_pdrng s))"
  defines "bits \<equiv> (num_events info * LRNG_DRNG_SECURITY_STRENGTH_BITS) div irq_entropy_bits info"
  defines "avail0 \<equiv> min bits LRNG_POOL_SIZE_BITS"
  assumes ieb: "irq_entropy_bits info \<noteq> 0"
    and d: "lrng_hash_digestsize cb (lrng_hash (lrng_pool s)) \<noteq> 0"
           "lrng_hash_digestsize cb (lrng_hash (lrng_pool s)) \<le> 64"
  shows "\<exists>ret out s1. lrng_get_pool e outbuf req drain s = Some (Inr (ret, out, s1))
     \<and> (if \<not> drain \<and> req + LRNG_EMERG_ENTROPY > avail0
         then ret = 0 \<and> out = outbuf \<and> pool (lrng_pool s1) = pool (lrng_pool s)
         else unat ret \<le> unat ((if drain then min avail0 req else req) AND NOT 7))
     \<and> 8 dvd unat ret \<and> unat ret \<le> 256
     \<and> num_events (irq_info (lrng_pool s1))
          = min (num_events info - lrng_entropy_to_data info ret)
                (lrng_entropy_to_data info LRNG_POOL_SIZE_BITS - lrng_entropy_to_data info ret)"
proof (cases "\<not> drain \<and> req + LRNG_EMERG_ENTROPY > avail0")
  case True
  then show ?thesis
    using ieb
    by (simp add: lrng_get_pool_def lrng_data_to_entropy_def Let_def info_def bits_def avail0_def)
next
  case False
  define avail2 where "avail2 = (if drain then min avail0 req else req) AND NOT 7"
  define p0 where "p0 = (lrng_pool s)\<lparr>irq_info := info\<lparr>num_events := 0\<rparr>\<rparr>"
  have d0: "lrng_hash_digestsize cb (lrng_hash p0) \<noteq> 0" "lrng_hash_digestsize cb (lrng_hash p0) \<le> 64"
    using d by (simp_all add: p0_def)
  obtain bits1 out p1 where
    hp: "lrng_hash_pool e cb outbuf avail2 p0 = Some (Inr (bits1, out, p1))"
    and b1: "unat bits1 \<le> unat avail2" "8 dvd unat bits1" "unat bits1 \<le> 256"
    and inv: "irq_info p1 = irq_info p0"
    using hash_pool_returns [OF d0, of e outbuf avail2] by blast
  have "lrng_get_pool e outbuf req drain s =
     Some (Inr (bits1, out, s\<lparr>lrng_pool := p1\<lparr>irq_info := (irq_info p1)\<lparr>num_events :=
        min (num_events info - lrng_entropy_to_data info bits1)
            (lrng_entropy_to_data info LRNG_POOL_SIZE_BITS - lrng_entropy_to_data info bits1)\<rparr>\<rparr>\<rparr>))"
    using False ieb hp inv
    by (auto simp add: lrng_get_pool_def lrng_data_to_entropy_def Let_def info_def bits_def
        avail0_def avail2_def p0_def cb_def run_bind_def)
  moreover have "unat bits1 \<le> unat ((if drain then min avail0 req else req) AND NOT 7)"
    using b1 by (simp add: avail2_def)
  ultimately show ?thesis using False b1(2,3) by (simp only: if_False) simp
qed


lemma sint_nonneg_small: "(w::u32) \<le> 0x7FFFFFFF \<Longrightarrow> 0 \<le> sint w"
proof -
  assume "w \<le> 0x7FFFFFFF"
  then have "uint w \<le> 0x7FFFFFFF" by (simp add: word_le_def)
  then have "uint w < 2 ^ 31" by simp
  moreover have "- (2 ^ 31) \<le> uint w"
    by (rule order_trans [of _ 0]) simp_all
  ultimately have "signed_take_bit 31 (uint w) = uint w"
    by (rule signed_take_bit_int_eq_self [rotated])
  then have "sint w = uint w" by (simp add: sint_uint)
  then show ?thesis by simp
qed

lemma avail_entropy_eq:
  "irq_entropy_bits info \<noteq> 0 \<Longrightarrow>
   lrng_avail_entropy info =
     Inr (min ((num_events info * LRNG_DRNG_SECURITY_STRENGTH_BITS) div irq_entropy_bits info)
              LRNG_POOL_SIZE_BITS)"
  by (simp add: lrng_avail_entropy_def lrng_data_to_entropy_def min.commute)

lemma e2d_small:
  assumes "unat b \<le> 4096" "unat (irq_entropy_bits info) < 2 ^ 20"
  shows "unat (lrng_entropy_to_data info b) = unat b * unat (irq_entropy_bits info) div 256"
proof -
  have "unat b * unat (irq_entropy_bits info) \<le> 4096 * (2 ^ 20 - 1)"
    using assms by (intro mult_le_mono) simp_all
  then have "unat (b * irq_entropy_bits info) = unat b * unat (irq_entropy_bits info)"
    by (simp add: unat_word_ariths)
  then show ?thesis
    by (simp add: lrng_entropy_to_data_def unat_div lrng_consts)
qed


lemma and_not7_le: "unat ((x::u32) AND NOT 7) \<le> unat x"
  by (simp add: word_le_nat_alt [symmetric] word_and_le2)

lemma get_pool_le_avail:
  assumes nd: "drain \<or> unat req + unat LRNG_EMERG_ENTROPY < 2 ^ 32"
    and c: "if \<not> drain \<and> req + LRNG_EMERG_ENTROPY > avail0 then ret = 0
            else unat ret \<le> unat ((if drain then min avail0 req else req) AND NOT 7)"
  shows "ret \<le> avail0 \<and> (drain \<longrightarrow> ret \<le> min avail0 req) \<and> (\<not> drain \<longrightarrow> ret \<le> req)
         \<and> (\<not> drain \<and> unat avail0 < unat req + unat LRNG_EMERG_ENTROPY \<longrightarrow> ret = 0)"
proof (cases drain)
  case True
  then have "unat ret \<le> unat (min avail0 req)"
    using c and_not7_le [of "min avail0 req"] by simp
  then have "ret \<le> min avail0 req" by (simp add: word_le_nat_alt)
  then show ?thesis using True by simp
next
  case False
  then have sum: "unat (req + LRNG_EMERG_ENTROPY) = unat req + unat LRNG_EMERG_ENTROPY"
    using nd by (simp add: unat_word_ariths)
  show ?thesis
  proof (cases "req + LRNG_EMERG_ENTROPY > avail0")
    case True
    then show ?thesis using False c by simp
  next
    case nogap: False
    then have "unat req + unat LRNG_EMERG_ENTROPY \<le> unat avail0"
      using sum by (simp add: word_less_nat_alt)
    moreover have "unat ret \<le> unat req"
      using c False nogap and_not7_le [of req] by simp
    ultimately show ?thesis using False by (simp add: word_le_nat_alt)
  qed
qed

lemma unat_min_word: "unat (min (a::u32) b) = min (unat a) (unat b)"
  by (simp add: min_def word_le_nat_alt)

lemma and_not7_shift: "(x::u32) AND NOT 7 = push_bit 3 (drop_bit 3 x)"
proof -
  have m: "(7::u32) = mask 3" by (simp add: mask_eq_exp_minus_1)
  show ?thesis
    unfolding m
    by (rule bit_word_eqI) (auto simp add: bit_simps)
qed

lemma unat_and_not7: "unat ((x::u32) AND NOT 7) = 8 * (unat x div 8)"
proof -
  have "unat (drop_bit 3 x) = unat x div 8" by (simp add: drop_bit_eq_div unat_div)
  moreover have "unat x < 2 ^ 32" using unsigned_less [of x] by simp
  then have "8 * (unat x div 8) < 2 ^ 32" by simp
  ultimately show ?thesis
    unfolding and_not7_shift
    by (simp add: push_bit_eq_mult unat_word_ariths)
qed

lemma hash_pool_loop_exact:
  assumes d: "digestsize \<noteq> 0" "digestsize \<le> 64"
    and ok: "\<And>h b. fst (lrng_hash_buffer cb h b) = 0"
  shows "unat i \<le> 96 \<Longrightarrow> unat generated + unat avail \<le> 32 \<Longrightarrow>
         \<exists>g out1 p1. lrng_hash_pool_loop be cb digestsize p i avail generated out dig = Some (g, out1, p1)
            \<and> unat g = unat generated + min (unat avail) (32 - unat i)"
proof (induction "32 - unat i" arbitrary: i p avail generated out dig rule: less_induct)
  case less
  show ?case
  proof (cases "i < LRNG_DRNG_SECURITY_STRENGTH_BYTES \<and> avail > 0")
    case False
    then have "lrng_hash_pool_loop be cb digestsize p i avail generated out dig
                 = Some (generated, out, p)"
      by (subst lrng_hash_pool_loop.simps) (simp only: if_False)
    moreover have "min (unat avail) (32 - unat i) = 0"
      using False by (auto simp add: LRNG_DRNG_SECURITY_STRENGTH_BYTES_def word_less_nat_alt
          unat_gt_0 not_less)
    ultimately show ?thesis by simp
  next
    case True
    then have i32: "unat i < 32"
      by (simp add: LRNG_DRNG_SECURITY_STRENGTH_BYTES_def word_less_nat_alt)
    obtain ret dd where hb: "lrng_hash_buffer cb (lrng_hash p) (pool_bytes be p) = (ret, dd)"
      by (cases "lrng_hash_buffer cb (lrng_hash p) (pool_bytes be p)") auto
    have ret0: "ret = 0" using ok [of "lrng_hash p" "pool_bytes be p"] hb by simp
    define tocopy where "tocopy = min (min avail digestsize) (LRNG_DRNG_SECURITY_STRENGTH_BYTES - i)"
    have u32i: "unat (LRNG_DRNG_SECURITY_STRENGTH_BYTES - i) = 32 - unat i"
      using i32 by (simp add: LRNG_DRNG_SECURITY_STRENGTH_BYTES_def unat_sub word_le_nat_alt)
    have tcv: "unat tocopy = min (min (unat avail) (unat digestsize)) (32 - unat i)"
      by (simp add: tocopy_def unat_min_word u32i)
    have tc: "unat tocopy \<le> unat avail" using tcv by simp
    have dn: "0 < unat digestsize" "unat digestsize \<le> 64"
      using d by (simp_all add: unat_gt_0 word_le_nat_alt)
    have ui: "unat (i + digestsize) = unat i + unat digestsize"
      using i32 dn by (simp add: unat_word_ariths)
    have ug: "unat (generated + tocopy) = unat generated + unat tocopy"
      using tc less.prems by (simp add: unat_word_ariths)
    have ua: "unat (avail - tocopy) = unat avail - unat tocopy"
      using tc by (simp add: unat_sub word_le_nat_alt)
    let ?dig1 = "buf_write dig 0 dd"
    let ?p1 = "lrng_pool_lfsr be ?dig1 digestsize p"
    let ?out1 = "buf_write out (unat i) (buf_read ?dig1 0 (unat tocopy))"
    have "32 - unat (i + digestsize) < 32 - unat i" using ui i32 dn by simp
    moreover have "unat (i + digestsize) \<le> 96" using ui i32 dn by simp
    moreover have "unat (generated + tocopy) + unat (avail - tocopy) \<le> 32"
      using ug ua tc less.prems by simp
    ultimately obtain g out1 p1 where
      rec: "lrng_hash_pool_loop be cb digestsize ?p1 (i + digestsize) (avail - tocopy)
              (generated + tocopy) ?out1 ?dig1 = Some (g, out1, p1)"
      and g: "unat g = unat (generated + tocopy) + min (unat (avail - tocopy)) (32 - unat (i + digestsize))"
      using less.hyps [of "i + digestsize" "generated + tocopy" "avail - tocopy" ?p1 ?out1 ?dig1]
      by blast
    have "lrng_hash_pool_loop be cb digestsize p i avail generated out dig = Some (g, out1, p1)"
      using True hb ret0 rec
      by (subst lrng_hash_pool_loop.simps) (simp add: Let_def tocopy_def)
    moreover have "unat g = unat generated + min (unat avail) (32 - unat i)"
      using g ug ua ui tcv dn(1) i32 by (simp add: min_def split: if_splits)
    ultimately show ?thesis by simp
  qed
qed

lemma hash_pool_exact:
  assumes d: "lrng_hash_digestsize cb (lrng_hash p) \<noteq> 0" "lrng_hash_digestsize cb (lrng_hash p) \<le> 64"
    and ok: "\<And>h b. fst (lrng_hash_buffer cb h b) = 0"
  shows "\<exists>bits1 out p1. lrng_hash_pool e cb outbuf bits p = Some (Inr (bits1, out, p1))
           \<and> unat bits1 = 8 * min (unat bits div 8) 32"
proof -
  define avail1 where "avail1 = (if drop_bit 3 bits > LRNG_DRNG_SECURITY_STRENGTH_BYTES
     then LRNG_DRNG_SECURITY_STRENGTH_BYTES else drop_bit 3 bits)"
  have db: "unat (drop_bit 3 bits) = unat bits div 8"
    by (simp add: drop_bit_eq_div unat_div)
  have a1: "unat avail1 = min (unat bits div 8) 32"
    using db by (auto simp: avail1_def LRNG_DRNG_SECURITY_STRENGTH_BYTES_def word_less_nat_alt)
  obtain g out1 p1 where
    loop: "lrng_hash_pool_loop (big_endian e) cb (lrng_hash_digestsize cb (lrng_hash p)) p 0 avail1 0
             outbuf (stack e) = Some (g, out1, p1)"
    and g: "unat g = unat (0::u32) + min (unat avail1) (32 - unat (0::u32))"
    using hash_pool_loop_exact [OF d ok, of 0 0 avail1 "big_endian e" p outbuf "stack e"] a1
    by auto
  have g32: "unat g = min (unat bits div 8) 32" using g a1 by simp
  have pb: "unat (push_bit 3 g) = 8 * unat g"
    using g32 by (simp add: push_bit_eq_mult unat_word_ariths)
  have "lrng_hash_pool e cb outbuf bits p = Some (Inr (push_bit 3 g, out1, p1))"
    using d loop by (simp add: lrng_hash_pool_def Let_def avail1_def)
  then show ?thesis using pb g32 by simp
qed

lemma get_pool_served:
  fixes s e req drain outbuf
  defines "info \<equiv> irq_info (lrng_pool s)"
  defines "cb \<equiv> crypto_cbs e (lrng_pdrng.crypto_cb (lrng_pdrng s))"
  defines "bits \<equiv> (num_events info * LRNG_DRNG_SECURITY_STRENGTH_BITS) div irq_entropy_bits info"
  defines "avail0 \<equiv> min bits LRNG_POOL_SIZE_BITS"
  assumes ieb: "irq_entropy_bits info \<noteq> 0"
    and d: "lrng_hash_digestsize cb (lrng_hash (lrng_pool s)) \<noteq> 0"
           "lrng_hash_digestsize cb (lrng_hash (lrng_pool s)) \<le> 64"
    and ok: "\<And>h b. fst (lrng_hash_buffer cb h b) = 0"
    and served: "\<not> (\<not> drain \<and> req + LRNG_EMERG_ENTROPY > avail0)"
  shows "\<exists>out s1. lrng_get_pool e outbuf req drain s
            = Some (Inr (min ((if drain then min avail0 req else req) AND NOT 7)
                           LRNG_DRNG_SECURITY_STRENGTH_BITS, out, s1))"
proof -
  define avail2 where "avail2 = (if drain then min avail0 req else req) AND NOT 7"
  define p0 where "p0 = (lrng_pool s)\<lparr>irq_info := info\<lparr>num_events := 0\<rparr>\<rparr>"
  have d0: "lrng_hash_digestsize cb (lrng_hash p0) \<noteq> 0" "lrng_hash_digestsize cb (lrng_hash p0) \<le> 64"
    using d by (simp_all add: p0_def)
  obtain bits1 out p1 where
    hp: "lrng_hash_pool e cb outbuf avail2 p0 = Some (Inr (bits1, out, p1))"
    and b1: "unat bits1 = 8 * min (unat avail2 div 8) 32"
    using hash_pool_exact [OF d0 ok, of e outbuf avail2] by blast
  have "8 dvd unat avail2"
    unfolding avail2_def
    by (subst unat_and_not7) simp
  then have "unat avail2 = 8 * (unat avail2 div 8)" by simp
  then have "unat bits1 = min (unat avail2) 256" using b1 by (simp add: min_def)
  then have "bits1 = min avail2 LRNG_DRNG_SECURITY_STRENGTH_BITS"
    by (simp add: word_unat_eq_iff unat_min_word lrng_consts)
  moreover have "\<exists>s1. lrng_get_pool e outbuf req drain s = Some (Inr (bits1, out, s1))"
    using served ieb hp
    by (auto simp add: lrng_get_pool_def lrng_data_to_entropy_def Let_def info_def bits_def
        avail0_def avail2_def p0_def cb_def run_bind_def)
  ultimately show ?thesis unfolding avail2_def by blast
qed


text \<open>
  C1: with an initialised interrupt entropy rate (not 0 and below \<open>2^20\<close>; the code
  sets 256 or 2560), a digest size between 1 and 64, and a request that either drains or
  does not overflow when the emergency reserve is added (the code always requests 256
  bits), \<open>lrng_get_pool\<close> returns, the entropy-bit count it returns is at most
  \<open>lrng_avail_entropy\<close> before the call, and afterwards \<open>num_events\<close> is not negative
  and at most the event count of the pool capacity,
  \<open>lrng_entropy_to_data(LRNG_POOL_SIZE_BITS)\<close>.
\<close>

theorem lrng_get_pool_entropy_bounds:
  fixes s e req drain outbuf
  defines "info \<equiv> irq_info (lrng_pool s)"
  defines "cb \<equiv> crypto_cbs e (lrng_pdrng.crypto_cb (lrng_pdrng s))"
  assumes ieb: "irq_entropy_bits info \<noteq> 0" "unat (irq_entropy_bits info) < 2 ^ 20"
    and d: "lrng_hash_digestsize cb (lrng_hash (lrng_pool s)) \<noteq> 0"
           "lrng_hash_digestsize cb (lrng_hash (lrng_pool s)) \<le> 64"
    and nd: "drain \<or> unat req + unat LRNG_EMERG_ENTROPY < 2 ^ 32"
  shows "\<exists>ret out s1 avail.
           lrng_get_pool e outbuf req drain s = Some (Inr (ret, out, s1))
         \<and> lrng_avail_entropy info = Inr avail
         \<and> ret \<le> avail
         \<and> 0 \<le> sint (num_events (irq_info (lrng_pool s1)))
         \<and> num_events (irq_info (lrng_pool s1)) \<le> lrng_entropy_to_data info LRNG_POOL_SIZE_BITS"
proof -
  define avail0 where "avail0 =
    min ((num_events info * LRNG_DRNG_SECURITY_STRENGTH_BITS) div irq_entropy_bits info)
        LRNG_POOL_SIZE_BITS"
  obtain ret out s1 where
    r: "lrng_get_pool e outbuf req drain s = Some (Inr (ret, out, s1))"
    and c: "if \<not> drain \<and> req + LRNG_EMERG_ENTROPY > avail0 then ret = 0
            else unat ret \<le> unat ((if drain then min avail0 req else req) AND NOT 7)"
    and r256: "unat ret \<le> 256"
    and ne: "num_events (irq_info (lrng_pool s1))
          = min (num_events info - lrng_entropy_to_data info ret)
                (lrng_entropy_to_data info LRNG_POOL_SIZE_BITS - lrng_entropy_to_data info ret)"
    using get_pool_returns [of s e, OF ieb(1) [unfolded info_def] d [unfolded cb_def], of outbuf req drain]
    unfolding avail0_def info_def
    by (auto split: if_splits)
  have av: "lrng_avail_entropy info = Inr avail0"
    using ieb(1) by (simp add: avail_entropy_eq avail0_def)
  have le: "ret \<le> avail0" using get_pool_le_avail [OF nd c] by simp
  let ?used = "lrng_entropy_to_data info ret"
  let ?cap = "lrng_entropy_to_data info LRNG_POOL_SIZE_BITS"
  have ucap: "unat ?cap = 16 * unat (irq_entropy_bits info)"
    using e2d_small [of LRNG_POOL_SIZE_BITS info] ieb(2) by (simp add: lrng_consts)
  have uused: "unat ?used \<le> unat (irq_entropy_bits info)"
  proof -
    have "unat ?used = unat ret * unat (irq_entropy_bits info) div 256"
      using e2d_small [of ret info] ieb(2) r256 by simp
    also have "\<dots> \<le> 256 * unat (irq_entropy_bits info) div 256"
      using r256 by (intro div_le_mono mult_le_mono) simp_all
    finally show ?thesis by simp
  qed
  have "?used \<le> ?cap" using ucap uused by (simp add: word_le_nat_alt)
  then have "?cap - ?used \<le> ?cap" by (rule word_sub_le)
  then have nle: "num_events (irq_info (lrng_pool s1)) \<le> ?cap"
    using ne by (simp add: min.coboundedI2)
  have "unat ?cap < 2 ^ 24" using ucap ieb(2) by simp
  then have "?cap \<le> 0x7FFFFFFF" by (simp add: word_le_nat_alt)
  then have "num_events (irq_info (lrng_pool s1)) \<le> 0x7FFFFFFF" using nle by simp
  then have "0 \<le> sint (num_events (irq_info (lrng_pool s1)))" by (rule sint_nonneg_small)
  then show ?thesis using r av le nle by blast
qed

text \<open>
  C3: under the same conditions \<open>lrng_get_pool\<close> returns.  Without \<open>drain\<close> it returns
  0, writes nothing and leaves the pool words alone when the available entropy is below
  the request plus \<open>LRNG_EMERG_ENTROPY\<close>, and never returns more than the request; with
  \<open>drain\<close> it returns at most the smaller of the available and the requested entropy;
  in both cases the result is a multiple of 8 bits, a whole number of bytes.  When
  \<open>lrng_hash_buffer\<close> does not fail, a request without \<open>drain\<close> that the available
  entropy covers together with the reserve is served with the request rounded down to a
  multiple of 8 bits, and a request with \<open>drain\<close> with the smaller of available and
  requested entropy rounded down to a multiple of 8 bits, both capped at the 256 bits
  that the output buffer holds.
\<close>

theorem lrng_get_pool_request_policy:
  fixes s e req drain outbuf
  defines "info \<equiv> irq_info (lrng_pool s)"
  defines "cb \<equiv> crypto_cbs e (lrng_pdrng.crypto_cb (lrng_pdrng s))"
  assumes ieb: "irq_entropy_bits info \<noteq> 0"
    and d: "lrng_hash_digestsize cb (lrng_hash (lrng_pool s)) \<noteq> 0"
           "lrng_hash_digestsize cb (lrng_hash (lrng_pool s)) \<le> 64"
    and nd: "unat req + unat LRNG_EMERG_ENTROPY < 2 ^ 32"
  shows "\<exists>ret out s1 avail.
           lrng_get_pool e outbuf req drain s = Some (Inr (ret, out, s1))
         \<and> lrng_avail_entropy info = Inr avail
         \<and> (\<not> drain \<and> unat avail < unat req + unat LRNG_EMERG_ENTROPY \<longrightarrow>
              ret = 0 \<and> out = outbuf \<and> pool (lrng_pool s1) = pool (lrng_pool s))
         \<and> (\<not> drain \<longrightarrow> ret \<le> req)
         \<and> (drain \<longrightarrow> ret \<le> min avail req)
         \<and> 8 dvd unat ret
         \<and> ((\<forall>h b. fst (lrng_hash_buffer cb h b) = 0) \<longrightarrow>
              (\<not> drain \<and> unat req + unat LRNG_EMERG_ENTROPY \<le> unat avail \<longrightarrow>
                 ret = min (req AND NOT 7) LRNG_DRNG_SECURITY_STRENGTH_BITS)
            \<and> (drain \<longrightarrow>
                 ret = min (min avail req AND NOT 7) LRNG_DRNG_SECURITY_STRENGTH_BITS))"
proof -
  define avail0 where "avail0 =
    min ((num_events info * LRNG_DRNG_SECURITY_STRENGTH_BITS) div irq_entropy_bits info)
        LRNG_POOL_SIZE_BITS"
  obtain ret out s1 where
    r: "lrng_get_pool e outbuf req drain s = Some (Inr (ret, out, s1))"
    and c: "if \<not> drain \<and> req + LRNG_EMERG_ENTROPY > avail0
            then ret = 0 \<and> out = outbuf \<and> pool (lrng_pool s1) = pool (lrng_pool s)
            else unat ret \<le> unat ((if drain then min avail0 req else req) AND NOT 7)"
    and r8: "8 dvd unat ret"
    using get_pool_returns [of s e, OF ieb [unfolded info_def] d [unfolded cb_def], of outbuf req drain]
    unfolding avail0_def info_def
    by blast
  have av: "lrng_avail_entropy info = Inr avail0"
    using ieb by (simp add: avail_entropy_eq avail0_def)
  have c': "if \<not> drain \<and> req + LRNG_EMERG_ENTROPY > avail0 then ret = 0
            else unat ret \<le> unat ((if drain then min avail0 req else req) AND NOT 7)"
    using c by (simp split: if_splits)
  have sum: "unat (req + LRNG_EMERG_ENTROPY) = unat req + unat LRNG_EMERG_ENTROPY"
    using nd by (simp add: unat_word_ariths)
  have gap: "\<not> drain \<and> unat avail0 < unat req + unat LRNG_EMERG_ENTROPY \<longrightarrow>
              ret = 0 \<and> out = outbuf \<and> pool (lrng_pool s1) = pool (lrng_pool s)"
    using c sum by (auto simp: word_less_nat_alt split: if_splits)
  have le: "(\<not> drain \<longrightarrow> ret \<le> req) \<and> (drain \<longrightarrow> ret \<le> min avail0 req)"
    using get_pool_le_avail [OF _ c'] nd by simp
  have exact: "ret = min ((if drain then min avail0 req else req) AND NOT 7)
                       LRNG_DRNG_SECURITY_STRENGTH_BITS"
    if ok: "\<forall>h b. fst (lrng_hash_buffer cb h b) = 0"
      and served: "\<not> (\<not> drain \<and> req + LRNG_EMERG_ENTROPY > avail0)"
  proof -
    have "\<exists>out s1. lrng_get_pool e outbuf req drain s
            = Some (Inr (min ((if drain then min avail0 req else req) AND NOT 7)
                           LRNG_DRNG_SECURITY_STRENGTH_BITS, out, s1))"
      using get_pool_served [of s e, OF ieb [unfolded info_def] d [unfolded cb_def],
                folded cb_def info_def, folded avail0_def, of drain req outbuf] ok served
      by blast
    with r show ?thesis by auto
  qed
  have ex: "(\<forall>h b. fst (lrng_hash_buffer cb h b) = 0) \<longrightarrow>
              (\<not> drain \<and> unat req + unat LRNG_EMERG_ENTROPY \<le> unat avail0 \<longrightarrow>
                 ret = min (req AND NOT 7) LRNG_DRNG_SECURITY_STRENGTH_BITS)
            \<and> (drain \<longrightarrow>
                 ret = min (min avail0 req AND NOT 7) LRNG_DRNG_SECURITY_STRENGTH_BITS)"
    using exact sum by (auto simp add: word_less_nat_alt)
  show ?thesis using r av gap le r8 ex by blast
qed


lemma lrng_ready_pool_facts:
  "irq_entropy_bits (irq_info (lrng_pool lrng_ready)) = 256"
  "lrng_hash (lrng_pool lrng_ready) = None"
  "lrng_pdrng.crypto_cb (lrng_pdrng lrng_ready) = Lrng_cc20_crypto_cb"
  by (simp_all add: lrng_ready_def lrng_drngs_init_cc20_def lrng_boot_def test_env_def Let_def
      upd_irq_info_def upd_pdrng_def upd_sdrng_def lrng_sdrng_reset_def lrng_pdrng_reset_def
      lrng_pool_boot_def irq_info_boot_def lrng_consts)

lemma test_env_cbs:
  "crypto_cbs test_env Lrng_cc20_crypto_cb = good_cb"
  "lrng_hash_digestsize good_cb h = 32"
  by (simp_all add: test_env_def good_cb_def)

lemma lrng_collected_facts:
  "irq_entropy_bits (irq_info (lrng_pool (lrng_collected n))) = 256"
  "num_events (irq_info (lrng_pool (lrng_collected n))) = n"
  "lrng_hash (lrng_pool (lrng_collected n)) = None"
  "lrng_pdrng.crypto_cb (lrng_pdrng (lrng_collected n)) = Lrng_cc20_crypto_cb"
  by (simp_all add: lrng_collected_def upd_irq_info_def lrng_ready_pool_facts)

lemma good_cb_hash_buffer: "fst (lrng_hash_buffer good_cb h b) = 0"
  by (simp add: good_cb_def)

lemma collected_drain:
  assumes "n = 300 \<or> n = 5000"
  shows "\<exists>out s1. lrng_get_pool test_env (stack test_env) 256 True (lrng_collected n)
            = Some (Inr (256, out, s1))
          \<and> num_events (irq_info (lrng_pool s1)) = min (n - 256) 3840"
proof -
  let ?s = "lrng_collected n"
  have h: "irq_entropy_bits (irq_info (lrng_pool ?s)) \<noteq> 0"
    "lrng_hash_digestsize (crypto_cbs test_env (lrng_pdrng.crypto_cb (lrng_pdrng ?s)))
        (lrng_hash (lrng_pool ?s)) \<noteq> 0"
    "lrng_hash_digestsize (crypto_cbs test_env (lrng_pdrng.crypto_cb (lrng_pdrng ?s)))
        (lrng_hash (lrng_pool ?s)) \<le> 64"
    by (simp_all add: lrng_collected_facts test_env_cbs)
  have ok: "\<And>h b. fst (lrng_hash_buffer (crypto_cbs test_env
                  (lrng_pdrng.crypto_cb (lrng_pdrng ?s))) h b) = 0"
    by (simp add: lrng_collected_facts test_env_cbs good_cb_hash_buffer)
  have "\<exists>out s1. lrng_get_pool test_env (stack test_env) 256 True ?s = Some (Inr (256, out, s1))"
    using get_pool_served [of ?s test_env, OF h ok, of True 256 "stack test_env"] assms
    by (auto simp add: lrng_collected_facts lrng_consts)
  moreover have "\<exists>ret out s1. lrng_get_pool test_env (stack test_env) 256 True ?s
       = Some (Inr (ret, out, s1))
     \<and> num_events (irq_info (lrng_pool s1))
          = min (n - lrng_entropy_to_data (irq_info (lrng_pool ?s)) ret)
                (lrng_entropy_to_data (irq_info (lrng_pool ?s)) LRNG_POOL_SIZE_BITS
                   - lrng_entropy_to_data (irq_info (lrng_pool ?s)) ret)"
    using get_pool_returns [of ?s test_env, OF h, of "stack test_env" 256 True]
    by (auto simp add: lrng_collected_facts)
  ultimately show ?thesis
    by (auto simp add: lrng_entropy_to_data_def lrng_collected_facts lrng_consts)
qed

text \<open>
  Runs on pools that are not empty.  With 300 events counted and one bit of entropy an
  event, a draining request for 256 bits returns 256 bits and leaves 44 events; with 5000
  events, more than the pool holds, it leaves the 3840 that the cap allows.
\<close>

theorem lrng_get_pool_entropy_bounds_witness:
  "irq_entropy_bits (irq_info (lrng_pool (lrng_collected 300))) \<noteq> 0
   \<and> unat (irq_entropy_bits (irq_info (lrng_pool (lrng_collected 300)))) < 2 ^ 20
   \<and> lrng_hash_digestsize (crypto_cbs test_env (lrng_pdrng.crypto_cb (lrng_pdrng (lrng_collected 300))))
        (lrng_hash (lrng_pool (lrng_collected 300))) = 32
   \<and> (\<exists>ret out s1 avail.
         lrng_get_pool test_env (stack test_env) 256 True (lrng_collected 300)
           = Some (Inr (ret, out, s1))
       \<and> lrng_avail_entropy (irq_info (lrng_pool (lrng_collected 300))) = Inr avail
       \<and> ret \<le> avail
       \<and> 0 \<le> sint (num_events (irq_info (lrng_pool s1)))
       \<and> num_events (irq_info (lrng_pool s1))
            \<le> lrng_entropy_to_data (irq_info (lrng_pool (lrng_collected 300))) LRNG_POOL_SIZE_BITS
       \<and> avail = 300 \<and> ret = 256 \<and> num_events (irq_info (lrng_pool s1)) = 44)
   \<and> (\<exists>ret out s1 avail.
         lrng_get_pool test_env (stack test_env) 256 True (lrng_collected 5000)
           = Some (Inr (ret, out, s1))
       \<and> lrng_avail_entropy (irq_info (lrng_pool (lrng_collected 5000))) = Inr avail
       \<and> ret \<le> avail
       \<and> 0 \<le> sint (num_events (irq_info (lrng_pool s1)))
       \<and> num_events (irq_info (lrng_pool s1))
            \<le> lrng_entropy_to_data (irq_info (lrng_pool (lrng_collected 5000))) LRNG_POOL_SIZE_BITS
       \<and> avail = 4096 \<and> ret = 256 \<and> num_events (irq_info (lrng_pool s1)) = 3840
       \<and> lrng_entropy_to_data (irq_info (lrng_pool (lrng_collected 5000))) LRNG_POOL_SIZE_BITS
            = 4096)"
proof -
  have av: "lrng_avail_entropy (irq_info (lrng_pool (lrng_collected 300))) = Inr 300"
    "lrng_avail_entropy (irq_info (lrng_pool (lrng_collected 5000))) = Inr 4096"
    by (simp_all add: avail_entropy_eq lrng_collected_facts lrng_consts)
  have cap: "\<And>n. lrng_entropy_to_data (irq_info (lrng_pool (lrng_collected n))) 4096 = 4096"
    by (simp add: lrng_entropy_to_data_def lrng_collected_facts lrng_consts)
  show ?thesis
    using lrng_get_pool_entropy_bounds
            [where s = "lrng_collected 300" and e = test_env and req = 256 and drain = True
               and outbuf = "stack test_env"]
          lrng_get_pool_entropy_bounds
            [where s = "lrng_collected 5000" and e = test_env and req = 256 and drain = True
               and outbuf = "stack test_env"]
          collected_drain [of 300] collected_drain [of 5000]
    by (auto simp add: lrng_collected_facts test_env_cbs av cap lrng_consts)
qed

text \<open>
  Without \<open>drain\<close>, 300 bits do not cover 256 bits and the reserve of 512, and nothing
  is returned; 4096 bits do, and 256 bits are returned.  With \<open>drain\<close> and 110 bits
  available, 104 bits are returned, 13 whole bytes.
\<close>

theorem lrng_get_pool_request_policy_witness:
  "irq_entropy_bits (irq_info (lrng_pool (lrng_collected 300))) \<noteq> 0
   \<and> lrng_hash_digestsize (crypto_cbs test_env (lrng_pdrng.crypto_cb (lrng_pdrng (lrng_collected 300))))
        (lrng_hash (lrng_pool (lrng_collected 300))) = 32
   \<and> unat (256::u32) + unat LRNG_EMERG_ENTROPY < 2 ^ 32
   \<and> (\<forall>h b. fst (lrng_hash_buffer (crypto_cbs test_env
                  (lrng_pdrng.crypto_cb (lrng_pdrng (lrng_collected 300)))) h b) = 0)
   \<and> (\<exists>ret out s1 avail.
         lrng_get_pool test_env (stack test_env) 256 False (lrng_collected 300)
           = Some (Inr (ret, out, s1))
       \<and> lrng_avail_entropy (irq_info (lrng_pool (lrng_collected 300))) = Inr avail
       \<and> avail = 300 \<and> ret = 0 \<and> out = stack test_env
       \<and> pool (lrng_pool s1) = pool (lrng_pool (lrng_collected 300)))
   \<and> (\<exists>ret out s1 avail.
         lrng_get_pool test_env (stack test_env) 256 False (lrng_collected 5000)
           = Some (Inr (ret, out, s1))
       \<and> lrng_avail_entropy (irq_info (lrng_pool (lrng_collected 5000))) = Inr avail
       \<and> avail = 4096 \<and> ret = 256)
   \<and> (\<exists>ret out s1 avail.
         lrng_get_pool test_env (stack test_env) 256 True (lrng_collected 110)
           = Some (Inr (ret, out, s1))
       \<and> lrng_avail_entropy (irq_info (lrng_pool (lrng_collected 110))) = Inr avail
       \<and> avail = 110 \<and> ret = 104)"
proof -
  have av: "lrng_avail_entropy (irq_info (lrng_pool (lrng_collected 300))) = Inr 300"
    "lrng_avail_entropy (irq_info (lrng_pool (lrng_collected 5000))) = Inr 4096"
    "lrng_avail_entropy (irq_info (lrng_pool (lrng_collected 110))) = Inr 110"
    by (simp_all add: avail_entropy_eq lrng_collected_facts lrng_consts)
  have r: "(110::u32) AND NOT 7 = 104" "(256::u32) AND NOT 7 = 256" by simp_all
  show ?thesis
    using lrng_get_pool_request_policy
            [where s = "lrng_collected 300" and e = test_env and req = 256 and drain = False
               and outbuf = "stack test_env"]
          lrng_get_pool_request_policy
            [where s = "lrng_collected 5000" and e = test_env and req = 256 and drain = False
               and outbuf = "stack test_env"]
          lrng_get_pool_request_policy
            [where s = "lrng_collected 110" and e = test_env and req = 256 and drain = True
               and outbuf = "stack test_env"]
    by (simp add: lrng_collected_facts test_env_cbs good_cb_hash_buffer av r lrng_consts)
qed

subsection \<open>Interrupt events and the stuck test\<close>

lemma lrng_ready_irq_facts:
  "irq_info (lrng_pool lrng_ready) =
     irq_info_boot\<lparr>irq_highres_timer := True, irq_entropy_bits := 256\<rparr>"
  "pool (lrng_pool lrng_ready) = (\<lambda>i. 0)"
  "pool_ptr (lrng_pool lrng_ready) = 0"
  "input_rotate (lrng_pool lrng_ready) = 0"
  "lrng_pdrng_avail lrng_ready = 1"
  "all_online_numa_node_seeded (lrng_pool lrng_ready) = False"
  "trace lrng_ready = []"
  by (simp_all add: lrng_ready_def lrng_drngs_init_cc20_def lrng_boot_def test_env_def Let_def
      upd_irq_info_def upd_pdrng_def upd_sdrng_def lrng_sdrng_reset_def lrng_pdrng_reset_def
      lrng_pool_boot_def irq_info_boot_def lrng_consts)

lemma pool_ptr_lfsr_u32 [simp]: "pool_ptr (lrng_pool_lfsr_u32 v p) = pool_ptr p + 67"
  by (simp add: lrng_pool_lfsr_u32_def Let_def)

lemma mixin_keeps:
  "pool (lrng_pool (lrng_pool_mixin e n s)) = pool (lrng_pool s)"
  "pool_ptr (lrng_pool (lrng_pool_mixin e n s)) = pool_ptr (lrng_pool s)"
  "input_rotate (lrng_pool (lrng_pool_mixin e n s)) = input_rotate (lrng_pool s)"
  "num_events (irq_info (lrng_pool (lrng_pool_mixin e n s))) = num_events (irq_info (lrng_pool s))"
  "last_time (irq_info (lrng_pool (lrng_pool_mixin e n s))) = last_time (irq_info (lrng_pool s))"
  "last_delta (irq_info (lrng_pool (lrng_pool_mixin e n s))) = last_delta (irq_info (lrng_pool s))"
  "last_delta2 (irq_info (lrng_pool (lrng_pool_mixin e n s))) = last_delta2 (irq_info (lrng_pool s))"
  "crngt_ctr (irq_info (lrng_pool (lrng_pool_mixin e n s))) = crngt_ctr (irq_info (lrng_pool s))"
  "stuck_test (irq_info (lrng_pool (lrng_pool_mixin e n s))) = stuck_test (irq_info (lrng_pool s))"
  by (simp_all add: lrng_pool_mixin_def Let_def)

lemma irq_stuck_cases:
  fixes info :: lrng_irq_info and t :: u32
  defines "d1 \<equiv> t - last_time info"
  defines "d2 \<equiv> d1 - last_delta info"
  defines "d3 \<equiv> d2 - last_delta2 info"
  shows "lrng_irq_stuck e info t =
     (if stuck_test info \<and> fips_enabled e \<and> d1 = 0 \<and> crngt_ctr info - 1 = 0 then Inl Panic
      else Inr (if stuck_test info \<and> (d1 = 0 \<or> d2 = 0 \<or> d3 = 0) then 1 else 0,
                info\<lparr>last_time := t, last_delta := d1, last_delta2 := d2,
                  crngt_ctr := (if stuck_test info \<and> fips_enabled e
                                then (if d1 = 0 then crngt_ctr info - 1 else LRNG_FIPS_CRNGT)
                                else crngt_ctr info)\<rparr>))"
  by (simp add: lrng_irq_stuck_def Let_def d1_def d2_def d3_def)

lemma highres_lfsr_u32 [simp]:
  "irq_highres_timer (irq_info (lrng_pool_lfsr_u32 v p)) = irq_highres_timer (irq_info p)"
  by (simp add: lrng_pool_lfsr_u32_def Let_def)

lemma irq_lfsr_words_info [simp]:
  "irq_info (lrng_pool (irq_lfsr_words e t irq fl s)) = irq_info (lrng_pool s)"
  by (simp add: irq_lfsr_words_def Let_def split: option.splits prod.splits)

lemma irq_lfsr_words_trace [simp]:
  "trace (irq_lfsr_words e t irq fl s) = trace s"
  by (simp add: irq_lfsr_words_def Let_def split: option.splits prod.splits)

lemma irq_lfsr_words_ptr:
  "pool_ptr (lrng_pool (irq_lfsr_words e t irq fl s)) = pool_ptr (lrng_pool s)
     + 67 * (if irq_highres_timer (irq_info (lrng_pool s)) then 1
             else if irq_regs e = None then 6 else 7)"
  by (cases "irq_regs e") (simp_all add: irq_lfsr_words_def Let_def)

lemma irq_lfsr_words_highres:
  "irq_highres_timer (irq_info (lrng_pool s)) \<Longrightarrow>
     lrng_pool (irq_lfsr_words e t irq fl s) = lrng_pool_lfsr_u32 t (lrng_pool s)"
  by (simp add: irq_lfsr_words_def Let_def)

lemma add_irq_panic:
  assumes "\<not> lrng_raw_entropy_store e (random_get_entropy e)"
    and "stuck_test (irq_info (lrng_pool s))" "fips_enabled e"
    and "random_get_entropy e = last_time (irq_info (lrng_pool s))"
    and "crngt_ctr (irq_info (lrng_pool s)) - 1 = 0"
  shows "add_interrupt_randomness e irq irq_flags s = Inl Panic"
  using assms
  by (simp add: add_interrupt_randomness_def Let_def irq_stuck_cases)

lemma add_irq_returns:
  fixes e irq irq_flags s
  defines "info \<equiv> irq_info (lrng_pool s)"
  defines "t \<equiv> random_get_entropy e"
  defines "d1 \<equiv> t - last_time info"
  defines "d2 \<equiv> d1 - last_delta info"
  defines "d3 \<equiv> d2 - last_delta2 info"
  defines "rejected \<equiv> stuck_test info \<and> (d1 = 0 \<or> d2 = 0 \<or> d3 = 0)"
  defines "s2 \<equiv> irq_lfsr_words e t irq irq_flags s"
  defines "info1 \<equiv> info\<lparr>last_time := t, last_delta := d1, last_delta2 := d2,
                  crngt_ctr := (if stuck_test info \<and> fips_enabled e
                                then (if d1 = 0 then crngt_ctr info - 1 else LRNG_FIPS_CRNGT)
                                else crngt_ctr info)\<rparr>"
  assumes raw: "\<not> lrng_raw_entropy_store e t"
    and np: "\<not> (stuck_test info \<and> fips_enabled e \<and> d1 = 0 \<and> crngt_ctr info - 1 = 0)"
  shows "add_interrupt_randomness e irq irq_flags s =
           Inr (if rejected then s2\<lparr>lrng_pool := (lrng_pool s2)\<lparr>irq_info := info1\<rparr>\<rparr>
                else lrng_pool_mixin e (num_events info + 1)
                       (s2\<lparr>lrng_pool := (lrng_pool s2)
                             \<lparr>irq_info := info1\<lparr>num_events := num_events info + 1\<rparr>\<rparr>\<rparr>))"
proof -
  note c = irq_stuck_cases [of e info t, folded d1_def d2_def d3_def]
  have st: "lrng_irq_stuck e info t = Inr (if rejected then 1 else 0, info1)"
    using np by (simp only: c if_False rejected_def info1_def)
  have i2: "irq_info (lrng_pool s2) = info" by (simp add: s2_def info_def)
  have ne: "num_events info1 = num_events info" by (simp add: info1_def)
  show ?thesis
    using raw i2 st
    by (cases rejected)
       (simp_all add: add_interrupt_randomness_def Let_def t_def [symmetric] s2_def [symmetric] ne)
qed


lemma add_irq_returns_facts:
  fixes e irq irq_flags s
  defines "info \<equiv> irq_info (lrng_pool s)"
  defines "t \<equiv> random_get_entropy e"
  defines "d1 \<equiv> t - last_time info"
  defines "d2 \<equiv> d1 - last_delta info"
  defines "d3 \<equiv> d2 - last_delta2 info"
  defines "rejected \<equiv> stuck_test info \<and> (d1 = 0 \<or> d2 = 0 \<or> d3 = 0)"
  assumes raw: "\<not> lrng_raw_entropy_store e t"
    and np: "\<not> (stuck_test info \<and> fips_enabled e \<and> d1 = 0 \<and> crngt_ctr info - 1 = 0)"
  shows "\<exists>s1. add_interrupt_randomness e irq irq_flags s = Inr s1
            \<and> last_time (irq_info (lrng_pool s1)) = t
            \<and> last_delta (irq_info (lrng_pool s1)) = d1
            \<and> last_delta2 (irq_info (lrng_pool s1)) = d2
            \<and> stuck_test (irq_info (lrng_pool s1)) = stuck_test info
            \<and> crngt_ctr (irq_info (lrng_pool s1)) =
                 (if stuck_test info \<and> fips_enabled e
                  then (if d1 = 0 then crngt_ctr info - 1 else LRNG_FIPS_CRNGT)
                  else crngt_ctr info)
            \<and> num_events (irq_info (lrng_pool s1)) =
                 (if rejected then num_events info else num_events info + 1)
            \<and> (rejected \<longrightarrow> trace s1 = trace s
                  \<and> reseed_in_progress (irq_info (lrng_pool s1)) = reseed_in_progress info)
            \<and> pool_ptr (lrng_pool s1) = pool_ptr (lrng_pool s)
                 + 67 * (if irq_highres_timer info then 1 else if irq_regs e = None then 6 else 7)
            \<and> (irq_highres_timer info \<longrightarrow>
                  pool (lrng_pool s1) = pool (lrng_pool_lfsr_u32 t (lrng_pool s))
                  \<and> input_rotate (lrng_pool s1) = input_rotate (lrng_pool_lfsr_u32 t (lrng_pool s)))"
proof -
  note r = add_irq_returns [of e s irq irq_flags,
      folded info_def t_def, folded d1_def, folded d2_def, folded d3_def, folded rejected_def,
      OF raw np]
  show ?thesis
  proof (cases rejected)
    case True
    then show ?thesis
      unfolding r
      by (simp add: irq_lfsr_words_ptr irq_lfsr_words_highres info_def [symmetric])
  next
    case False
    then show ?thesis
      unfolding r
      by (simp add: mixin_keeps irq_lfsr_words_ptr irq_lfsr_words_highres info_def [symmetric])
  qed
qed

lemma rotl_5: "word_rotl 7 (5::u32) = 640" "word_rotl 14 (5::u32) = 81920"
  by code_simp+

lemmas irq_eval = events_counted_def pool_word_def add_interrupt_randomness_def irq_lfsr_words_def
  Let_def lrng_irq_stuck_def lrng_pool_mixin_def lrng_ready_irq_facts irq_info_boot_def
  test_env_def fips_env_def lrng_consts lrng_entropy_to_data_def lrng_pool_lfsr_u32_def rol32_def
  lrng_lfsr_polynomial_def lrng_twist_table_def rotl_5

text \<open>
  C4, as the specification states it: an event that the stuck test rejects is neither
  mixed into the pool nor counted.  It is false for the code: of two interrupts with the
  time stamp 5 the second has a zero first delta and is not counted, yet its time stamp
  is fed to the LFSR and changes pool word 6.
\<close>

theorem stuck_event_still_mixed_counterexample: "events_counted (irq_events test_env [5] lrng_ready) = Inr 1
  \<and> events_counted (irq_events test_env [5, 5] lrng_ready) = Inr 1
  \<and> pool_word 6 (irq_events test_env [5] lrng_ready) = Inr 0
  \<and> pool_word 6 (irq_events test_env [5, 5] lrng_ready) = Inr 10240"
  by (simp add: irq_eval)


text \<open>
  C5, as the specification states it: in FIPS mode three consecutive events with
  identical deltas, that is three consecutive rejections, end in a panic.  It is false
  for the code: the time stamps 10, 20, 30, 40 have the identical delta 10, the last
  three events are rejected (only the first is counted), and the run returns.
\<close>

theorem fips_identical_deltas_no_panic_counterexample:
  "events_counted (irq_events fips_env [10, 20, 30, 40] lrng_ready) = Inr 1"
proof -
  let ?e = "\<lambda>t. fips_env\<lparr>random_get_entropy := t\<rparr>"
  have raw: "\<And>t. \<not> lrng_raw_entropy_store (?e t) (random_get_entropy (?e t))"
    by (simp add: fips_env_def test_env_def)
  have fe: "\<And>t. fips_enabled (?e t)" by (simp add: fips_env_def)
  have i0: "stuck_test (irq_info (lrng_pool lrng_ready))"
    "last_time (irq_info (lrng_pool lrng_ready)) = 0"
    "last_delta (irq_info (lrng_pool lrng_ready)) = 0"
    "last_delta2 (irq_info (lrng_pool lrng_ready)) = 0"
    "num_events (irq_info (lrng_pool lrng_ready)) = 0"
    by (simp_all add: lrng_ready_irq_facts irq_info_boot_def)
  obtain s1 where s1: "add_interrupt_randomness (?e 10) 0 0 lrng_ready = Inr s1"
    "stuck_test (irq_info (lrng_pool s1))" "last_time (irq_info (lrng_pool s1)) = 10"
    "last_delta (irq_info (lrng_pool s1)) = 10" "last_delta2 (irq_info (lrng_pool s1)) = 10"
    "num_events (irq_info (lrng_pool s1)) = 1"
    using add_irq_returns_facts [of "?e 10" lrng_ready 0 0, OF raw] i0 by auto
  obtain s2 where s2: "add_interrupt_randomness (?e 20) 0 0 s1 = Inr s2"
    "stuck_test (irq_info (lrng_pool s2))" "last_time (irq_info (lrng_pool s2)) = 20"
    "last_delta (irq_info (lrng_pool s2)) = 10" "last_delta2 (irq_info (lrng_pool s2)) = 0"
    "num_events (irq_info (lrng_pool s2)) = 1"
    using add_irq_returns_facts [of "?e 20" s1 0 0, OF raw] s1 by auto
  obtain s3 where s3: "add_interrupt_randomness (?e 30) 0 0 s2 = Inr s3"
    "stuck_test (irq_info (lrng_pool s3))" "last_time (irq_info (lrng_pool s3)) = 30"
    "last_delta (irq_info (lrng_pool s3)) = 10" "last_delta2 (irq_info (lrng_pool s3)) = 0"
    "num_events (irq_info (lrng_pool s3)) = 1"
    using add_irq_returns_facts [of "?e 30" s2 0 0, OF raw] s2 by auto
  obtain s4 where s4: "add_interrupt_randomness (?e 40) 0 0 s3 = Inr s4"
    "num_events (irq_info (lrng_pool s4)) = 1"
    using add_irq_returns_facts [of "?e 40" s3 0 0, OF raw] s3 by auto
  show ?thesis using s1(1) s2(1) s3(1) s4 by (simp add: events_counted_def)
qed


text \<open>
  C4, amended: for an interrupt with time stamp \<open>t\<close> that the raw-entropy test hook
  does not take, the stuck test computes \<open>d1 = t - last_time\<close>,
  \<open>d2 = d1 - last_delta\<close>, \<open>d3 = d2 - last_delta2\<close> and stores \<open>t\<close>, \<open>d1\<close>,
  \<open>d2\<close>.  With the stuck test enabled the event is rejected exactly when one of the
  three is 0; a rejected event is not counted in \<open>num_events\<close> and does not reach
  \<open>lrng_pool_mixin\<close> (no wake-up, no seed work), every other event is counted once.
  Rejected or not, the time stamp is fed to the LFSR first: the pool pointer advances by
  67 for each word mixed in, and with a high-resolution timer the pool is that of
  \<open>lrng_pool_lfsr_u32 t\<close>.  The call only fails to return by the FIPS panic.
\<close>

theorem add_interrupt_randomness_stuck_test:
  fixes e irq irq_flags s
  defines "info \<equiv> irq_info (lrng_pool s)"
  defines "t \<equiv> random_get_entropy e"
  defines "d1 \<equiv> t - last_time info"
  defines "d2 \<equiv> d1 - last_delta info"
  defines "d3 \<equiv> d2 - last_delta2 info"
  defines "rejected \<equiv> stuck_test info \<and> (d1 = 0 \<or> d2 = 0 \<or> d3 = 0)"
  assumes raw: "\<not> lrng_raw_entropy_store e t"
  shows "case add_interrupt_randomness e irq irq_flags s of
           Inl f \<Rightarrow> f = Panic \<and> fips_enabled e \<and> stuck_test info \<and> d1 = 0
         | Inr s1 \<Rightarrow>
             last_time (irq_info (lrng_pool s1)) = t
           \<and> last_delta (irq_info (lrng_pool s1)) = d1
           \<and> last_delta2 (irq_info (lrng_pool s1)) = d2
           \<and> num_events (irq_info (lrng_pool s1)) =
                (if rejected then num_events info else num_events info + 1)
           \<and> (rejected \<longrightarrow> trace s1 = trace s
                 \<and> reseed_in_progress (irq_info (lrng_pool s1)) = reseed_in_progress info)
           \<and> pool_ptr (lrng_pool s1) = pool_ptr (lrng_pool s)
                + 67 * (if irq_highres_timer info then 1 else if irq_regs e = None then 6 else 7)
           \<and> (irq_highres_timer info \<longrightarrow>
                 pool (lrng_pool s1) = pool (lrng_pool_lfsr_u32 t (lrng_pool s))
                 \<and> input_rotate (lrng_pool s1) = input_rotate (lrng_pool_lfsr_u32 t (lrng_pool s)))"
proof (cases "stuck_test info \<and> fips_enabled e \<and> d1 = 0 \<and> crngt_ctr info - 1 = 0")
  case True
  then have "add_interrupt_randomness e irq irq_flags s = Inl Panic"
    using raw add_irq_panic [of e s irq irq_flags]
    by (simp add: info_def t_def d1_def)
  then show ?thesis using True by simp
next
  case False
  note f = add_irq_returns_facts [of e s irq irq_flags,
      folded info_def t_def, folded d1_def, folded d2_def, folded d3_def, folded rejected_def,
      OF raw False]
  then obtain s1 where "add_interrupt_randomness e irq irq_flags s = Inr s1" by blast
  with f show ?thesis by auto
qed

theorem add_interrupt_randomness_stuck_test_witness:
  "\<not> lrng_raw_entropy_store test_env (random_get_entropy test_env)
   \<and> (case add_interrupt_randomness test_env 0 0 lrng_ready of
           Inl f \<Rightarrow> False
         | Inr s1 \<Rightarrow>
             last_time (irq_info (lrng_pool s1)) = 5
           \<and> last_delta (irq_info (lrng_pool s1)) = 5
           \<and> last_delta2 (irq_info (lrng_pool s1)) = 5
           \<and> num_events (irq_info (lrng_pool s1)) = 1
           \<and> pool_ptr (lrng_pool s1) = 67)"
proof -
  have raw: "\<not> lrng_raw_entropy_store test_env (random_get_entropy test_env)"
    by (simp add: test_env_def)
  have fe: "\<not> fips_enabled test_env" "random_get_entropy test_env = 5"
    by (simp_all add: test_env_def)
  show ?thesis
    using add_interrupt_randomness_stuck_test [of test_env lrng_ready 0 0, OF raw] raw fe
    by (auto simp add: lrng_ready_irq_facts irq_info_boot_def split: sum.splits)
qed

lemma three_zero_deltas:
  fixes e s t
  defines "info \<equiv> irq_info (lrng_pool s)"
  assumes a: "fips_enabled e" "stuck_test info" "crngt_ctr info = LRNG_FIPS_CRNGT"
    "last_time info = t" "\<not> lrng_raw_entropy_store e t"
  shows "\<exists>s2. irq_events e [t, t] s = Inr s2
           \<and> num_events (irq_info (lrng_pool s2)) = num_events info
           \<and> crngt_ctr (irq_info (lrng_pool s2)) = 1"
    and "irq_events e [t, t, t] s = Inl Panic"
proof -
  let ?e = "e\<lparr>random_get_entropy := t\<rparr>"
  have raw: "\<not> lrng_raw_entropy_store ?e (random_get_entropy ?e)" using a by simp
  have fe: "fips_enabled ?e" using a by simp
  obtain s1 where s1: "add_interrupt_randomness ?e 0 0 s = Inr s1"
    "stuck_test (irq_info (lrng_pool s1))" "last_time (irq_info (lrng_pool s1)) = t"
    "crngt_ctr (irq_info (lrng_pool s1)) = 2"
    "num_events (irq_info (lrng_pool s1)) = num_events info"
    using add_irq_returns_facts [of ?e s 0 0, OF raw] a fe
    by (auto simp add: info_def LRNG_FIPS_CRNGT_def)
  obtain s2 where s2: "add_interrupt_randomness ?e 0 0 s1 = Inr s2"
    "stuck_test (irq_info (lrng_pool s2))" "last_time (irq_info (lrng_pool s2)) = t"
    "crngt_ctr (irq_info (lrng_pool s2)) = 1"
    "num_events (irq_info (lrng_pool s2)) = num_events info"
    using add_irq_returns_facts [of ?e s1 0 0, OF raw] s1 fe by auto
  have "add_interrupt_randomness ?e 0 0 s2 = Inl Panic"
    using add_irq_panic [of ?e s2 0 0, OF raw] s2 fe by simp
  then show "irq_events e [t, t, t] s = Inl Panic" using s1(1) s2(1) by simp
  show "\<exists>s2. irq_events e [t, t] s = Inr s2
           \<and> num_events (irq_info (lrng_pool s2)) = num_events info
           \<and> crngt_ctr (irq_info (lrng_pool s2)) = 1"
    using s1(1) s2(1,4,5) by simp
qed

lemma fresh_stamp:
  fixes e s t
  defines "info \<equiv> irq_info (lrng_pool s)"
  assumes a: "fips_enabled e" "t \<noteq> last_time info" "\<not> lrng_raw_entropy_store e t"
  shows "\<exists>s1. irq_events e [t] s = Inr s1
           \<and> add_interrupt_randomness (e\<lparr>random_get_entropy := t\<rparr>) 0 0 s = Inr s1
           \<and> stuck_test (irq_info (lrng_pool s1)) = stuck_test info
           \<and> last_time (irq_info (lrng_pool s1)) = t
           \<and> (stuck_test info \<longrightarrow> crngt_ctr (irq_info (lrng_pool s1)) = LRNG_FIPS_CRNGT)"
proof -
  let ?e = "e\<lparr>random_get_entropy := t\<rparr>"
  have raw: "\<not> lrng_raw_entropy_store ?e (random_get_entropy ?e)" using a by simp
  have fe: "fips_enabled ?e" using a by simp
  show ?thesis
    using add_irq_returns_facts [of ?e s 0 0, OF raw] a fe
    by (auto simp add: info_def)
qed

text \<open>
  C5, amended: in FIPS mode with the stuck test enabled, the panic comes at the third of
  three consecutive events whose first delta is 0, that is, whose time stamp repeats the
  time stamp of the event before it.  When the time stamp stored last is \<open>t\<close> and the
  counter is at \<open>LRNG_FIPS_CRNGT\<close>, the events \<open>t, t\<close> are rejected, not counted and
  return, and the third \<open>t\<close> panics.  After a different time stamp the first \<open>t\<close> has a
  non-zero first delta: \<open>t, t, t\<close> returns with the counter at 1, and it is the fourth
  identical time stamp that panics.  An event with a non-zero first delta never panics
  and sets the counter back to \<open>LRNG_FIPS_CRNGT\<close>, also when it is rejected for its
  second or third delta.  Outside FIPS mode no run of events panics.
\<close>

theorem fips_crngt_three_zero_deltas:
  fixes e s t ts
  defines "info \<equiv> irq_info (lrng_pool s)"
  shows "(fips_enabled e \<and> stuck_test info \<and> crngt_ctr info = LRNG_FIPS_CRNGT
            \<and> last_time info = t \<and> \<not> lrng_raw_entropy_store e t \<longrightarrow>
            events_counted (irq_events e [t, t] s) = Inr (num_events info)
            \<and> irq_events e [t, t, t] s = Inl Panic)
       \<and> (fips_enabled e \<and> stuck_test info \<and> t \<noteq> last_time info
            \<and> \<not> lrng_raw_entropy_store e t \<longrightarrow>
            (\<exists>s3. irq_events e [t, t, t] s = Inr s3
               \<and> crngt_ctr (irq_info (lrng_pool s3)) = 1)
            \<and> irq_events e [t, t, t, t] s = Inl Panic)
       \<and> (fips_enabled e \<and> t \<noteq> last_time info \<and> \<not> lrng_raw_entropy_store e t \<longrightarrow>
            (\<exists>s1. irq_events e [t] s = Inr s1
               \<and> (stuck_test info \<longrightarrow> crngt_ctr (irq_info (lrng_pool s1)) = LRNG_FIPS_CRNGT)))
       \<and> (\<not> fips_enabled e \<and> (\<forall>u \<in> set ts. \<not> lrng_raw_entropy_store e u) \<longrightarrow>
            (\<exists>s1. irq_events e ts s = Inr s1))"
proof (intro conjI impI)
  assume a: "fips_enabled e \<and> stuck_test info \<and> crngt_ctr info = LRNG_FIPS_CRNGT
            \<and> last_time info = t \<and> \<not> lrng_raw_entropy_store e t"
  note z = three_zero_deltas [of e s t, folded info_def]
  from a show "irq_events e [t, t, t] s = Inl Panic" by (intro z(2)) simp_all
  from a obtain s2 where "irq_events e [t, t] s = Inr s2"
    "num_events (irq_info (lrng_pool s2)) = num_events info"
    using z(1) by blast
  then show "events_counted (irq_events e [t, t] s) = Inr (num_events info)"
    by (simp add: events_counted_def)
next
  assume a: "fips_enabled e \<and> stuck_test info \<and> t \<noteq> last_time info
            \<and> \<not> lrng_raw_entropy_store e t"
  then obtain s1 where s1: "add_interrupt_randomness (e\<lparr>random_get_entropy := t\<rparr>) 0 0 s = Inr s1"
    "stuck_test (irq_info (lrng_pool s1))" "last_time (irq_info (lrng_pool s1)) = t"
    "crngt_ctr (irq_info (lrng_pool s1)) = LRNG_FIPS_CRNGT"
    using fresh_stamp [of e t s] by (auto simp add: info_def)
  have run: "irq_events e (t # us) s = irq_events e us s1" for us
    using s1(1) by simp
  note z = three_zero_deltas [of e s1 t, OF _ s1(2) s1(4) s1(3)]
  from a obtain s3 where "irq_events e [t, t] s1 = Inr s3"
    "crngt_ctr (irq_info (lrng_pool s3)) = 1"
    using z(1) by blast
  then show "\<exists>s3. irq_events e [t, t, t] s = Inr s3
               \<and> crngt_ctr (irq_info (lrng_pool s3)) = 1"
    unfolding run by simp
  from a show "irq_events e [t, t, t, t] s = Inl Panic"
    unfolding run by (intro z(2)) simp_all
next
  assume a: "fips_enabled e \<and> t \<noteq> last_time info \<and> \<not> lrng_raw_entropy_store e t"
  then show "\<exists>s1. irq_events e [t] s = Inr s1
     \<and> (stuck_test info \<longrightarrow> crngt_ctr (irq_info (lrng_pool s1)) = LRNG_FIPS_CRNGT)"
    using fresh_stamp [of e t s] by (auto simp add: info_def)
next
  assume a: "\<not> fips_enabled e \<and> (\<forall>u \<in> set ts. \<not> lrng_raw_entropy_store e u)"
  then have "\<forall>u \<in> set ts. \<not> lrng_raw_entropy_store e u" by simp
  then show "\<exists>s1. irq_events e ts s = Inr s1"
  proof (induction ts arbitrary: s)
    case Nil
    then show ?case by simp
  next
    case (Cons u us)
    let ?e = "e\<lparr>random_get_entropy := u\<rparr>"
    have raw: "\<not> lrng_raw_entropy_store ?e (random_get_entropy ?e)" using Cons.prems by simp
    have nf: "\<not> fips_enabled ?e" using a by simp
    obtain s1 where s1: "add_interrupt_randomness ?e 0 0 s = Inr s1"
      using add_irq_returns_facts [of ?e s 0 0, OF raw] nf by auto
    moreover obtain s2 where "irq_events e us s1 = Inr s2"
      using Cons.IH [of s1] Cons.prems by auto
    ultimately show ?case by simp
  qed
qed

theorem fips_crngt_three_zero_deltas_witness:
  "irq_events fips_env [0, 0, 0] lrng_ready = Inl Panic
   \<and> events_counted (irq_events fips_env [0, 0] lrng_ready) = Inr 0
   \<and> (\<exists>s3. irq_events fips_env [7, 7, 7] lrng_ready = Inr s3
         \<and> crngt_ctr (irq_info (lrng_pool s3)) = 1)
   \<and> irq_events fips_env [7, 7, 7, 7] lrng_ready = Inl Panic
   \<and> (\<exists>s1. irq_events fips_env [9] lrng_ready = Inr s1)
   \<and> (\<exists>s1. irq_events test_env [5, 5, 5, 5] lrng_ready = Inr s1)"
proof -
  have h: "fips_enabled fips_env" "\<not> fips_enabled test_env"
    "stuck_test (irq_info (lrng_pool lrng_ready))"
    "crngt_ctr (irq_info (lrng_pool lrng_ready)) = LRNG_FIPS_CRNGT"
    "last_time (irq_info (lrng_pool lrng_ready)) = 0"
    "num_events (irq_info (lrng_pool lrng_ready)) = 0"
    "\<And>u. \<not> lrng_raw_entropy_store fips_env u"
    "\<And>u. \<not> lrng_raw_entropy_store test_env u"
    by (simp_all add: lrng_ready_irq_facts irq_info_boot_def fips_env_def test_env_def)
  show ?thesis
    using fips_crngt_three_zero_deltas [of fips_env lrng_ready 0 "[]"]
          fips_crngt_three_zero_deltas [of fips_env lrng_ready 7 "[]"]
          fips_crngt_three_zero_deltas [of fips_env lrng_ready 9 "[]"]
          fips_crngt_three_zero_deltas [of test_env lrng_ready 0 "[5, 5, 5, 5]"]
          h
    by (auto simp del: irq_events.simps)
qed

subsection \<open>The seeding state of the primary DRNG\<close>

lemma emit_fields [simp]:
  "lrng_pdrng (emit es s) = lrng_pdrng s"
  "lrng_pool (emit es s) = lrng_pool s"
  "lrng_ready_list (emit es s) = lrng_ready_list s"
  "sdrng_mem (emit es s) = sdrng_mem s"
  "drng_mem (emit es s) = drng_mem s"
  "lrng_sdrng (emit es s) = lrng_sdrng s"
  "lrng_pdrng_avail (emit es s) = lrng_pdrng_avail s"
  "lrng_sdrng_reseed_max_time (emit es s) = lrng_sdrng_reseed_max_time s"
  "trace (emit es s) = trace s @ es"
  by (simp_all add: emit_def)

lemma upd_pdrng_fields [simp]:
  "lrng_pdrng (upd_pdrng f s) = f (lrng_pdrng s)"
  "lrng_pool (upd_pdrng f s) = lrng_pool s"
  "lrng_ready_list (upd_pdrng f s) = lrng_ready_list s"
  "sdrng_mem (upd_pdrng f s) = sdrng_mem s"
  "drng_mem (upd_pdrng f s) = drng_mem s"
  "lrng_sdrng (upd_pdrng f s) = lrng_sdrng s"
  "lrng_pdrng_avail (upd_pdrng f s) = lrng_pdrng_avail s"
  "lrng_sdrng_reseed_max_time (upd_pdrng f s) = lrng_sdrng_reseed_max_time s"
  "trace (upd_pdrng f s) = trace s"
  by (simp_all add: upd_pdrng_def)

lemma upd_irq_info_fields [simp]:
  "lrng_pdrng (upd_irq_info f s) = lrng_pdrng s"
  "irq_info (lrng_pool (upd_irq_info f s)) = f (irq_info (lrng_pool s))"
  "pool (lrng_pool (upd_irq_info f s)) = pool (lrng_pool s)"
  "lrng_hash (lrng_pool (upd_irq_info f s)) = lrng_hash (lrng_pool s)"
  "lrng_ready_list (upd_irq_info f s) = lrng_ready_list s"
  "sdrng_mem (upd_irq_info f s) = sdrng_mem s"
  "drng_mem (upd_irq_info f s) = drng_mem s"
  "lrng_sdrng (upd_irq_info f s) = lrng_sdrng s"
  "lrng_pdrng_avail (upd_irq_info f s) = lrng_pdrng_avail s"
  "lrng_sdrng_reseed_max_time (upd_irq_info f s) = lrng_sdrng_reseed_max_time s"
  "trace (upd_irq_info f s) = trace s"
  by (simp_all add: upd_irq_info_def)

lemma upd_sdrng_fields [simp]:
  "lrng_pdrng (upd_sdrng p f s) = lrng_pdrng s"
  "lrng_pool (upd_sdrng p f s) = lrng_pool s"
  "lrng_ready_list (upd_sdrng p f s) = lrng_ready_list s"
  "sdrng_mem (upd_sdrng p f s) = (sdrng_mem s)(p := f (sdrng_mem s p))"
  "drng_mem (upd_sdrng p f s) = drng_mem s"
  "lrng_sdrng (upd_sdrng p f s) = lrng_sdrng s"
  "lrng_pdrng_avail (upd_sdrng p f s) = lrng_pdrng_avail s"
  "lrng_sdrng_reseed_max_time (upd_sdrng p f s) = lrng_sdrng_reseed_max_time s"
  "trace (upd_sdrng p f s) = trace s"
  by (simp_all add: upd_sdrng_def)

lemma process_ready_list_fields [simp]:
  "lrng_pdrng (lrng_process_ready_list s) = lrng_pdrng s"
  "lrng_pool (lrng_process_ready_list s) = lrng_pool s"
  "lrng_ready_list (lrng_process_ready_list s) = []"
  "trace (lrng_process_ready_list s) = trace s @ map Ready_func (lrng_ready_list s)"
  by (simp_all add: lrng_process_ready_list_def)

lemma init_ops_flags:
  fixes s bits
  defines "pd \<equiv> lrng_pdrng s"
  defines "fires \<equiv> \<not> pdrng_fully_seeded pd \<and>
     (bits \<ge> LRNG_DRNG_SECURITY_STRENGTH_BITS \<or>
      (\<not> pdrng_min_seeded pd \<and> bits \<ge> LRNG_MIN_SEED_ENTROPY_BITS))"
  shows "pdrng_fully_seeded (lrng_pdrng (lrng_pdrng_init_ops bits s)) =
           (pdrng_fully_seeded pd \<or> bits \<ge> LRNG_DRNG_SECURITY_STRENGTH_BITS)"
    and "pdrng_min_seeded (lrng_pdrng (lrng_pdrng_init_ops bits s)) =
           (pdrng_min_seeded pd \<or> fires)"
    and "lrng_ready_list (lrng_pdrng_init_ops bits s) = (if fires then [] else lrng_ready_list s)"
    and "trace (lrng_pdrng_init_ops bits s) =
           trace s @ (if fires then Invalidate_batched_entropy # map Ready_func (lrng_ready_list s)
                                     @ [Wake_up_pdrng_init_wait] else [])"
    and "num_events_thresh (irq_info (lrng_pool (lrng_pdrng_init_ops bits s))) =
           (if fires then lrng_entropy_to_data (irq_info (lrng_pool s)) LRNG_DRNG_SECURITY_STRENGTH_BITS
            else if \<not> pdrng_fully_seeded pd \<and> \<not> pdrng_min_seeded pd
                    \<and> bits \<ge> LRNG_INIT_ENTROPY_BITS
            then lrng_entropy_to_data (irq_info (lrng_pool s)) LRNG_MIN_SEED_ENTROPY_BITS
            else num_events_thresh (irq_info (lrng_pool s)))"
  unfolding pd_def fires_def
  by (auto simp add: lrng_pdrng_init_ops_def Let_def invalidate_batched_entropy_def
      lrng_set_entropy_thresh_def)


lemma pdrng_generate_keeps [simp]:
  "pdrng_fully_seeded (lrng_pdrng (snd (snd (lrng_pdrng_generate e out off len fe s))))
     = pdrng_fully_seeded (lrng_pdrng s)"
  "pdrng_min_seeded (lrng_pdrng (snd (snd (lrng_pdrng_generate e out off len fe s))))
     = pdrng_min_seeded (lrng_pdrng s)"
  "lrng_pool (snd (snd (lrng_pdrng_generate e out off len fe s))) = lrng_pool s"
  "lrng_ready_list (snd (snd (lrng_pdrng_generate e out off len fe s))) = lrng_ready_list s"
  "trace (snd (snd (lrng_pdrng_generate e out off len fe s))) = trace s"
  by (simp_all add: lrng_pdrng_generate_def Let_def case_prod_beta)

lemma init_ops_budget_mem:
  "pdrng_fully_seeded (lrng_pdrng (lrng_pdrng_init_ops b
       (upd_pdrng (\<lambda>p. p\<lparr>pdrng_entropy_bits := g p\<rparr>) (s\<lparr>drng_mem := m\<rparr>))))
     = pdrng_fully_seeded (lrng_pdrng (lrng_pdrng_init_ops b s))"
  "pdrng_min_seeded (lrng_pdrng (lrng_pdrng_init_ops b
       (upd_pdrng (\<lambda>p. p\<lparr>pdrng_entropy_bits := g p\<rparr>) (s\<lparr>drng_mem := m\<rparr>))))
     = pdrng_min_seeded (lrng_pdrng (lrng_pdrng_init_ops b s))"
  "num_events_thresh (irq_info (lrng_pool (lrng_pdrng_init_ops b
       (upd_pdrng (\<lambda>p. p\<lparr>pdrng_entropy_bits := g p\<rparr>) (s\<lparr>drng_mem := m\<rparr>)))))
     = num_events_thresh (irq_info (lrng_pool (lrng_pdrng_init_ops b s)))"
  "lrng_ready_list (lrng_pdrng_init_ops b
       (upd_pdrng (\<lambda>p. p\<lparr>pdrng_entropy_bits := g p\<rparr>) (s\<lparr>drng_mem := m\<rparr>)))
     = lrng_ready_list (lrng_pdrng_init_ops b s)"
  "trace (lrng_pdrng_init_ops b
       (upd_pdrng (\<lambda>p. p\<lparr>pdrng_entropy_bits := g p\<rparr>) (s\<lparr>drng_mem := m\<rparr>)))
     = trace (lrng_pdrng_init_ops b s)"
  by (simp_all add: init_ops_flags)

lemma pdrng_inject_locked_flags:
  fixes e inbuf ebits outbuf outbuflen fe s
  defines "pd \<equiv> lrng_pdrng s"
  defines "seed_ret \<equiv> fst (lrng_drng_seed_helper (crypto_cbs e (lrng_pdrng.crypto_cb pd))
                             (drng_mem s (pdrng pd)) inbuf)"
  defines "budget \<equiv> min (pdrng_entropy_bits pd + min ebits (push_bit 3 (of_nat (length inbuf))))
                        LRNG_DRNG_SECURITY_STRENGTH_BITS"
  defines "s' \<equiv> (if sint seed_ret < 0 then s else lrng_pdrng_init_ops budget s)"
  defines "s5 \<equiv> snd (snd (lrng_pdrng_inject_locked e inbuf ebits outbuf outbuflen fe s))"
  shows "pdrng_fully_seeded (lrng_pdrng s5) = pdrng_fully_seeded (lrng_pdrng s')"
    and "pdrng_min_seeded (lrng_pdrng s5) = pdrng_min_seeded (lrng_pdrng s')"
    and "num_events_thresh (irq_info (lrng_pool s5)) = num_events_thresh (irq_info (lrng_pool s'))"
    and "lrng_ready_list s5 = lrng_ready_list s'"
    and "trace s5 = trace s'"
  unfolding s5_def s'_def seed_ret_def budget_def pd_def
  by (simp_all add: lrng_pdrng_inject_locked_def Let_def case_prod_beta init_ops_budget_mem
       split: option.splits)

lemma pdrng_inject_flags:
  fixes e inbuf ebits outbuf outbuflen fe s
  defines "pd \<equiv> lrng_pdrng s"
  defines "seed_ret \<equiv> fst (lrng_drng_seed_helper (crypto_cbs e (lrng_pdrng.crypto_cb pd))
                             (drng_mem s (pdrng pd)) inbuf)"
  defines "budget \<equiv> min (pdrng_entropy_bits pd + min ebits (push_bit 3 (of_nat (length inbuf))))
                        LRNG_DRNG_SECURITY_STRENGTH_BITS"
  defines "s' \<equiv> (if sint seed_ret < 0 then s else lrng_pdrng_init_ops budget s)"
  assumes inj: "lrng_pdrng_inject e inbuf ebits outbuf outbuflen fe s = Inr (ret, out, s2)"
  shows "pdrng_fully_seeded (lrng_pdrng s2) = pdrng_fully_seeded (lrng_pdrng s')
       \<and> pdrng_min_seeded (lrng_pdrng s2) = pdrng_min_seeded (lrng_pdrng s')
       \<and> num_events_thresh (irq_info (lrng_pool s2)) = num_events_thresh (irq_info (lrng_pool s'))
       \<and> lrng_ready_list s2 = lrng_ready_list s'
       \<and> filter (\<lambda>ev. \<exists>c. ev = Ready_func c) (trace s2)
            = filter (\<lambda>ev. \<exists>c. ev = Ready_func c) (trace s')"
proof -
  define s5 where "s5 = snd (snd (lrng_pdrng_inject_locked e inbuf ebits outbuf outbuflen fe s))"
  note k = pdrng_inject_locked_flags [of e inbuf ebits outbuf outbuflen fe s,
              folded s5_def pd_def, folded seed_ret_def budget_def, folded s'_def]
  from inj have "s2 = s5 \<or> s2 = emit [Wake_up_read_wait, Kill_fasync_in] s5"
    by (auto simp add: lrng_pdrng_inject_def Let_def case_prod_beta s5_def
          split: sum.splits if_splits)
  then show ?thesis using k by auto
qed


lemma word_consts_order:
  "LRNG_INIT_ENTROPY_BITS \<le> LRNG_MIN_SEED_ENTROPY_BITS"
  "LRNG_MIN_SEED_ENTROPY_BITS \<le> LRNG_DRNG_SECURITY_STRENGTH_BITS"
  by (simp_all add: lrng_consts)

lemma e2d_roundtrip:
  assumes "irq_entropy_bits info = LRNG_IRQ_ENTROPY_BITS
           \<or> irq_entropy_bits info = LRNG_IRQ_ENTROPY_BITS * LRNG_IRQ_OVERSAMPLING_FACTOR"
  shows "lrng_data_to_entropy info (lrng_entropy_to_data info LRNG_MIN_SEED_ENTROPY_BITS)
           = Inr LRNG_MIN_SEED_ENTROPY_BITS"
    and "lrng_data_to_entropy info (lrng_entropy_to_data info LRNG_DRNG_SECURITY_STRENGTH_BITS)
           = Inr LRNG_DRNG_SECURITY_STRENGTH_BITS"
  using assms
  by (auto simp add: lrng_data_to_entropy_def lrng_entropy_to_data_def lrng_consts)

text \<open>
  C2: while the primary DRNG is not fully seeded, \<open>lrng_pdrng_init_ops\<close> acts on the
  entropy level it is given as follows.  At 256 bits or more it sets the fully-seeded and
  the minimally-seeded flag and the reseed threshold of the pool to the events of 256
  bits; from 128 bits on, when not yet minimally seeded, it sets the minimally-seeded flag
  and the threshold to the events of 256 bits; from 32 bits on, when not yet minimally
  seeded, it leaves the flags alone (the initial level) and sets the threshold to the
  events of 128 bits; otherwise it changes nothing.  With the event rate that the
  initialisation sets, the two thresholds are worth exactly 128 and 256 bits.
  \<open>lrng_pdrng_inject\<close>, once the seeding succeeded, leaves the flags and the threshold
  that \<open>lrng_pdrng_init_ops\<close> gives for the new entropy budget of the DRNG.
\<close>

theorem lrng_pdrng_init_ops_thresholds:
  fixes s bits e inbuf ebits outbuf outbuflen fe
  defines "info \<equiv> irq_info (lrng_pool s)"
  defines "s1 \<equiv> lrng_pdrng_init_ops bits s"
  defines "budget \<equiv> min (pdrng_entropy_bits (lrng_pdrng s)
                            + min ebits (push_bit 3 (of_nat (length inbuf))))
                        LRNG_DRNG_SECURITY_STRENGTH_BITS"
  assumes nf: "\<not> pdrng_fully_seeded (lrng_pdrng s)"
  shows "(LRNG_DRNG_SECURITY_STRENGTH_BITS \<le> bits \<longrightarrow>
            pdrng_fully_seeded (lrng_pdrng s1) \<and> pdrng_min_seeded (lrng_pdrng s1)
          \<and> num_events_thresh (irq_info (lrng_pool s1))
              = lrng_entropy_to_data info LRNG_DRNG_SECURITY_STRENGTH_BITS)
       \<and> (\<not> pdrng_min_seeded (lrng_pdrng s) \<and> LRNG_MIN_SEED_ENTROPY_BITS \<le> bits
            \<and> bits < LRNG_DRNG_SECURITY_STRENGTH_BITS \<longrightarrow>
            pdrng_min_seeded (lrng_pdrng s1) \<and> \<not> pdrng_fully_seeded (lrng_pdrng s1)
          \<and> num_events_thresh (irq_info (lrng_pool s1))
              = lrng_entropy_to_data info LRNG_DRNG_SECURITY_STRENGTH_BITS)
       \<and> (\<not> pdrng_min_seeded (lrng_pdrng s) \<and> LRNG_INIT_ENTROPY_BITS \<le> bits
            \<and> bits < LRNG_MIN_SEED_ENTROPY_BITS \<longrightarrow>
            \<not> pdrng_min_seeded (lrng_pdrng s1) \<and> \<not> pdrng_fully_seeded (lrng_pdrng s1)
          \<and> num_events_thresh (irq_info (lrng_pool s1))
              = lrng_entropy_to_data info LRNG_MIN_SEED_ENTROPY_BITS)
       \<and> (bits < LRNG_INIT_ENTROPY_BITS
            \<or> (pdrng_min_seeded (lrng_pdrng s) \<and> bits < LRNG_DRNG_SECURITY_STRENGTH_BITS)
            \<longrightarrow> s1 = s)
       \<and> (irq_entropy_bits info = LRNG_IRQ_ENTROPY_BITS
            \<or> irq_entropy_bits info = LRNG_IRQ_ENTROPY_BITS * LRNG_IRQ_OVERSAMPLING_FACTOR \<longrightarrow>
            lrng_data_to_entropy info (lrng_entropy_to_data info LRNG_MIN_SEED_ENTROPY_BITS)
              = Inr LRNG_MIN_SEED_ENTROPY_BITS
          \<and> lrng_data_to_entropy info (lrng_entropy_to_data info LRNG_DRNG_SECURITY_STRENGTH_BITS)
              = Inr LRNG_DRNG_SECURITY_STRENGTH_BITS)
       \<and> (lrng_pdrng_inject e inbuf ebits outbuf outbuflen fe s = Inr (ret, out, s2)
            \<and> 0 \<le> sint (fst (lrng_drng_seed_helper
                               (crypto_cbs e (lrng_pdrng.crypto_cb (lrng_pdrng s)))
                               (drng_mem s (pdrng (lrng_pdrng s))) inbuf)) \<longrightarrow>
            pdrng_fully_seeded (lrng_pdrng s2)
              = pdrng_fully_seeded (lrng_pdrng (lrng_pdrng_init_ops budget s))
          \<and> pdrng_min_seeded (lrng_pdrng s2)
              = pdrng_min_seeded (lrng_pdrng (lrng_pdrng_init_ops budget s))
          \<and> num_events_thresh (irq_info (lrng_pool s2))
              = num_events_thresh (irq_info (lrng_pool (lrng_pdrng_init_ops budget s))))"
proof (intro conjI impI)
  assume "LRNG_DRNG_SECURITY_STRENGTH_BITS \<le> bits"
  then show "pdrng_fully_seeded (lrng_pdrng s1)" "pdrng_min_seeded (lrng_pdrng s1)"
    "num_events_thresh (irq_info (lrng_pool s1))
       = lrng_entropy_to_data info LRNG_DRNG_SECURITY_STRENGTH_BITS"
    using nf by (simp_all add: s1_def info_def init_ops_flags)
next
  assume a: "\<not> pdrng_min_seeded (lrng_pdrng s) \<and> LRNG_MIN_SEED_ENTROPY_BITS \<le> bits
            \<and> bits < LRNG_DRNG_SECURITY_STRENGTH_BITS"
  then show "pdrng_min_seeded (lrng_pdrng s1)" "\<not> pdrng_fully_seeded (lrng_pdrng s1)"
    "num_events_thresh (irq_info (lrng_pool s1))
       = lrng_entropy_to_data info LRNG_DRNG_SECURITY_STRENGTH_BITS"
    using nf by (simp_all add: s1_def info_def init_ops_flags not_le)
next
  assume a: "\<not> pdrng_min_seeded (lrng_pdrng s) \<and> LRNG_INIT_ENTROPY_BITS \<le> bits
            \<and> bits < LRNG_MIN_SEED_ENTROPY_BITS"
  then have lt: "\<not> LRNG_MIN_SEED_ENTROPY_BITS \<le> bits" "\<not> LRNG_DRNG_SECURITY_STRENGTH_BITS \<le> bits"
    using word_consts_order(2) by (auto simp add: not_le)
  show "\<not> pdrng_min_seeded (lrng_pdrng s1)" "\<not> pdrng_fully_seeded (lrng_pdrng s1)"
    "num_events_thresh (irq_info (lrng_pool s1))
       = lrng_entropy_to_data info LRNG_MIN_SEED_ENTROPY_BITS"
    using nf a lt by (simp_all add: s1_def info_def init_ops_flags)
next
  assume a: "bits < LRNG_INIT_ENTROPY_BITS
            \<or> (pdrng_min_seeded (lrng_pdrng s) \<and> bits < LRNG_DRNG_SECURITY_STRENGTH_BITS)"
  have "bits < LRNG_INIT_ENTROPY_BITS \<Longrightarrow> \<not> LRNG_MIN_SEED_ENTROPY_BITS \<le> bits
            \<and> \<not> LRNG_DRNG_SECURITY_STRENGTH_BITS \<le> bits \<and> \<not> LRNG_INIT_ENTROPY_BITS \<le> bits"
    using word_consts_order by (auto simp add: not_le)
  with a show "s1 = s"
    by (auto simp add: s1_def lrng_pdrng_init_ops_def not_le)
next
  assume "irq_entropy_bits info = LRNG_IRQ_ENTROPY_BITS
            \<or> irq_entropy_bits info = LRNG_IRQ_ENTROPY_BITS * LRNG_IRQ_OVERSAMPLING_FACTOR"
  then show "lrng_data_to_entropy info (lrng_entropy_to_data info LRNG_MIN_SEED_ENTROPY_BITS)
              = Inr LRNG_MIN_SEED_ENTROPY_BITS"
    "lrng_data_to_entropy info (lrng_entropy_to_data info LRNG_DRNG_SECURITY_STRENGTH_BITS)
              = Inr LRNG_DRNG_SECURITY_STRENGTH_BITS"
    by (rule e2d_roundtrip)+
next
  assume a: "lrng_pdrng_inject e inbuf ebits outbuf outbuflen fe s = Inr (ret, out, s2)
            \<and> 0 \<le> sint (fst (lrng_drng_seed_helper
                               (crypto_cbs e (lrng_pdrng.crypto_cb (lrng_pdrng s)))
                               (drng_mem s (pdrng (lrng_pdrng s))) inbuf))"
  then show "pdrng_fully_seeded (lrng_pdrng s2)
              = pdrng_fully_seeded (lrng_pdrng (lrng_pdrng_init_ops budget s))"
    "pdrng_min_seeded (lrng_pdrng s2)
              = pdrng_min_seeded (lrng_pdrng (lrng_pdrng_init_ops budget s))"
    "num_events_thresh (irq_info (lrng_pool s2))
              = num_events_thresh (irq_info (lrng_pool (lrng_pdrng_init_ops budget s)))"
    using pdrng_inject_flags [of e inbuf ebits outbuf outbuflen fe s ret out s2]
    by (simp_all add: budget_def)
qed


lemma lrng_ready_pdrng_facts:
  "lrng_pdrng lrng_ready = \<lparr>pdrng = Primary_chacha20, crypto_cb = Lrng_cc20_crypto_cb,
       pdrng_fully_seeded = False, pdrng_min_seeded = False, pdrng_entropy_bits = 0\<rparr>"
  "lrng_pdrng_avail lrng_ready = 1"
  "lrng_sdrng lrng_ready = None"
  by (simp_all add: lrng_ready_def lrng_drngs_init_cc20_def lrng_boot_def test_env_def Let_def
      upd_irq_info_def upd_pdrng_def upd_sdrng_def lrng_sdrng_reset_def lrng_pdrng_reset_def)

theorem lrng_pdrng_init_ops_thresholds_witness:
  "\<not> pdrng_fully_seeded (lrng_pdrng lrng_ready)
   \<and> num_events_thresh (irq_info (lrng_pool (lrng_pdrng_init_ops 32 lrng_ready))) = 128
   \<and> \<not> pdrng_min_seeded (lrng_pdrng (lrng_pdrng_init_ops 32 lrng_ready))
   \<and> pdrng_min_seeded (lrng_pdrng (lrng_pdrng_init_ops 128 lrng_ready))
   \<and> \<not> pdrng_fully_seeded (lrng_pdrng (lrng_pdrng_init_ops 128 lrng_ready))
   \<and> num_events_thresh (irq_info (lrng_pool (lrng_pdrng_init_ops 128 lrng_ready))) = 256
   \<and> pdrng_fully_seeded (lrng_pdrng (lrng_pdrng_init_ops 256 lrng_ready))
   \<and> lrng_pdrng_init_ops 31 lrng_ready = lrng_ready"
proof -
  have nf: "\<not> pdrng_fully_seeded (lrng_pdrng lrng_ready)"
    "\<not> pdrng_min_seeded (lrng_pdrng lrng_ready)"
    by (simp_all add: lrng_ready_pdrng_facts)
  have e: "lrng_entropy_to_data (irq_info (lrng_pool lrng_ready)) LRNG_MIN_SEED_ENTROPY_BITS = 128"
    "lrng_entropy_to_data (irq_info (lrng_pool lrng_ready)) LRNG_DRNG_SECURITY_STRENGTH_BITS = 256"
    by (simp_all add: lrng_entropy_to_data_def lrng_ready_pool_facts lrng_consts)
  show ?thesis
    using lrng_pdrng_init_ops_thresholds [where s = lrng_ready and bits = 32, OF nf(1)]
          lrng_pdrng_init_ops_thresholds [where s = lrng_ready and bits = 128, OF nf(1)]
          lrng_pdrng_init_ops_thresholds [where s = lrng_ready and bits = 256, OF nf(1)]
          lrng_pdrng_init_ops_thresholds [where s = lrng_ready and bits = 31, OF nf(1)]
          nf e
    by (simp add: lrng_consts)
qed

subsection \<open>Switching the callbacks\<close>

lemma sdrng_switch_pdrng [simp]:
  "lrng_pdrng (lrng_sdrng_switch e p cb node s) = lrng_pdrng s"
  by (simp add: lrng_sdrng_switch_def Let_def case_prod_beta lrng_sdrng_reset_def
      split: sum.splits)

lemma fold_sdrng_switch_pdrng [simp]:
  "lrng_pdrng (fold (\<lambda>node st. case tbl node of Some p \<Rightarrow> lrng_sdrng_switch e p cb node st
                                 | None \<Rightarrow> st) ns s) = lrng_pdrng s"
  by (induction ns arbitrary: s) (simp_all split: option.splits)

lemma pdrng_reset_fields [simp]:
  "lrng_pdrng (lrng_pdrng_reset s) = (lrng_pdrng s)\<lparr>pdrng_entropy_bits := 0,
      pdrng_fully_seeded := False, pdrng_min_seeded := False\<rparr>"
  "lrng_pdrng_avail (lrng_pdrng_reset s) = lrng_pdrng_avail s"
  "lrng_sdrng (lrng_pdrng_reset s) = lrng_sdrng s"
  "drng_mem (lrng_pdrng_reset s) = drng_mem s"
  by (simp_all add: lrng_pdrng_reset_def)

lemma drngs_switch_pdrng:
  assumes al: "lrng_drng_alloc (crypto_cbs e cb) LRNG_DRNG_SECURITY_STRENGTH_BYTES = Inr c"
    and ha: "lrng_hash_alloc (crypto_cbs e cb)
               (take (unat LRNG_DRNG_SECURITY_STRENGTH_BYTES)
                  (pool_bytes (big_endian e) (lrng_pool s))) = Inr h"
  shows "lrng_pdrng.crypto_cb (lrng_pdrng (snd (lrng_drngs_switch e cb s))) = cb"
    and "pdrng (lrng_pdrng (snd (lrng_drngs_switch e cb s))) = Drng_alloc (drng_brk s)"
    and "fst (lrng_drngs_switch e cb s) = 0"
    and "(\<forall>obj inbuf. sint (fst (lrng_drng_seed_helper (crypto_cbs e cb) obj inbuf)) < 0) \<Longrightarrow>
         \<not> pdrng_fully_seeded (lrng_pdrng (snd (lrng_drngs_switch e cb s)))
         \<and> \<not> pdrng_min_seeded (lrng_pdrng (snd (lrng_drngs_switch e cb s)))"
  using al ha
  by (simp_all add: lrng_drngs_switch_def Let_def case_prod_beta split: option.splits)


lemma test_cb_facts:
  "crypto_cbs test_env (Crypto_cb 0) = good_cb"
  "crypto_cbs test_env (Crypto_cb 1) = failing_cb"
  "crypto_cbs test_env (Crypto_cb (Suc 0)) = failing_cb"
  "lrng_drng_alloc good_cb n = Inr []"
  "lrng_drng_alloc failing_cb n = Inr []"
  "lrng_hash_alloc good_cb key = Inr (take 1 key)"
  "lrng_hash_alloc failing_cb key = Inr (take 1 key)"
  "lrng_drng_seed_helper failing_cb obj inbuf = (- 22, obj)"
  "lrng_drng_seed_helper good_cb obj inbuf = (0, take 2 inbuf)"
  by (simp_all add: test_env_def good_cb_def failing_cb_def)

lemma init_ops_keeps [simp]:
  "irq_entropy_bits (irq_info (lrng_pool (lrng_pdrng_init_ops b s)))
     = irq_entropy_bits (irq_info (lrng_pool s))"
  "lrng_pdrng.crypto_cb (lrng_pdrng (lrng_pdrng_init_ops b s)) = lrng_pdrng.crypto_cb (lrng_pdrng s)"
  by (simp_all add: lrng_pdrng_init_ops_def Let_def invalidate_batched_entropy_def
      lrng_set_entropy_thresh_def)

lemma pdrng_generate_keeps_cb [simp]:
  "lrng_pdrng.crypto_cb (lrng_pdrng (snd (snd (lrng_pdrng_generate e out off len fe s))))
     = lrng_pdrng.crypto_cb (lrng_pdrng s)"
  by (simp add: lrng_pdrng_generate_def Let_def case_prod_beta)






text \<open>
  C7: when the requested callbacks are not the default ones and the callbacks of the
  primary DRNG are not the default ones either, \<open>lrng_set_drng_cb\<close> returns \<open>-EINVAL\<close>
  and the state is unchanged.
\<close>

theorem lrng_set_drng_cb_rejects_second_backend:
  assumes "cb \<noteq> Lrng_cc20_crypto_cb"
    and "lrng_pdrng.crypto_cb (lrng_pdrng s) \<noteq> Lrng_cc20_crypto_cb"
  shows "lrng_set_drng_cb e (Some cb) s = (- EINVAL, s) \<and> sint (- EINVAL) = - 22"
  using assms by (simp add: lrng_set_drng_cb_def EINVAL_def)

lemma lrng_switched_facts:
  "lrng_pdrng.crypto_cb (lrng_pdrng lrng_switched) = Crypto_cb 0"
proof -
  have "lrng_set_drng_cb test_env (Some (Crypto_cb 0)) lrng_ready
          = lrng_drngs_switch test_env (Crypto_cb 0) lrng_ready"
    by (simp add: lrng_set_drng_cb_def lrng_ready_pdrng_facts)
  then show ?thesis
    using drngs_switch_pdrng(1) [of test_env "Crypto_cb 0" "[]" lrng_ready]
    by (simp add: lrng_switched_def test_cb_facts)
qed

theorem lrng_set_drng_cb_rejects_second_backend_witness:
  "Crypto_cb 1 \<noteq> Lrng_cc20_crypto_cb
   \<and> lrng_pdrng.crypto_cb (lrng_pdrng lrng_switched) \<noteq> Lrng_cc20_crypto_cb
   \<and> lrng_set_drng_cb test_env (Some (Crypto_cb 1)) lrng_switched = (- EINVAL, lrng_switched)
   \<and> sint (- EINVAL) = - 22"
  using lrng_set_drng_cb_rejects_second_backend [of "Crypto_cb 1" lrng_switched test_env]
  by (simp add: lrng_switched_facts)


subsection \<open>Reseeding the secondary DRNGs\<close>

lemma sdrng_inject_fields [simp]:
  "trace (lrng_sdrng_inject e p inbuf internal s) = trace s"
  "lrng_pdrng (lrng_sdrng_inject e p inbuf internal s) = lrng_pdrng s"
  "lrng_pool (lrng_sdrng_inject e p inbuf internal s) = lrng_pool s"
  by (simp_all add: lrng_sdrng_inject_def Let_def case_prod_beta)

lemma drngs_init_cc20_trace [simp]: "trace (lrng_drngs_init_cc20 e s) = trace s"
  by (simp add: lrng_drngs_init_cc20_def Let_def lrng_sdrng_reset_def lrng_pdrng_reset_def)


lemma get_arch_trace [simp]: "trace (snd (snd (lrng_get_arch e out off s))) = trace s"
  by (simp add: lrng_get_arch_def Let_def split: prod.splits bool.splits)

lemma get_jent_trace [simp]: "trace (snd (snd (lrng_get_jent e out off len s))) = trace s"
  by (simp add: lrng_get_jent_def Let_def case_prod_beta)











subsection \<open>Concrete generate requests\<close>






subsection \<open>The reseed deadline\<close>












subsection \<open>The atomic DRNG\<close>






lemma pdrng_parts_sdrng_mem [simp]:
  "sdrng_mem (snd (snd (lrng_get_arch e out off s))) = sdrng_mem s"
  "sdrng_mem (snd (snd (lrng_get_jent e out off len s))) = sdrng_mem s"
  "sdrng_mem (snd (snd (lrng_pdrng_generate e out off len fe s))) = sdrng_mem s"
  "sdrng_mem (lrng_pdrng_init_ops b s) = sdrng_mem s"
  by (simp_all add: lrng_get_arch_def lrng_get_jent_def lrng_pdrng_generate_def
      lrng_pdrng_init_ops_def invalidate_batched_entropy_def lrng_process_ready_list_def
      Let_def case_prod_beta split: prod.splits bool.splits)










end
